theory Spec2Isabelle
  imports Complex_Main
begin

section \<open>Deferred layout requests (\<open>createDeferredRequestLayoutCalculation\<close>, root.ts)\<close>

text \<open>
  A \<open>FlexNode\<close> object is identified by its reference; its private field \<open>yogaNode\<close>
  (the handle of the layout engine, \<open>undefined\<close> as long as the engine node does not exist)
  lives in a store indexed by that reference. The closure variable \<open>requestedNode\<close> of
  \<open>createDeferredRequestLayoutCalculation\<close> is a field of the same world record, next to
  the registry of frame hooks and the subscription list that \<open>createRoot\<close> builds.
\<close>

type_synonym FlexNode = nat
type_synonym YogaNode = nat

text \<open>
  The five functions that \<open>createRoot\<close> adds to \<open>onFrameSet\<close>. They are different
  function objects, so the set holds each of them separately.
\<close>

datatype frameHook =
    DeferredLayoutOnFrame
  | PanelGroupOnFrame
  | CameraDistanceOnFrame
  | ScrollOnFrame
  | GlyphGroupOnFrame

datatype teardown =
    DeleteFrameHook frameHook
  | DestroyNode FlexNode
  | External nat

record world =
  onFrameSet :: "frameHook set"
  subscriptions :: "teardown list"
  requestedNode :: "FlexNode option"
  yogaNode :: "FlexNode \<Rightarrow> YogaNode option"
  layoutCalls :: "FlexNode list"
  teardownLog :: "teardown list"

text \<open>
  Modelled from the spec: \<open>FlexNode.calculateLayout\<close> (module flex) is defined outside
  the files verified here. The spec describes it as one synchronous pass through the layout
  engine; the model records the invocation on the node in \<open>layoutCalls\<close>, oldest call
  first.
\<close>

definition calculateLayout :: "FlexNode \<Rightarrow> world \<Rightarrow> world" where
  "calculateLayout node w = w\<lparr>layoutCalls := layoutCalls w @ [node]\<rparr>"

text \<open>
  Modelled from the spec: \<open>FlexNode.destroy\<close> (module flex) is defined outside the files
  verified here. The spec says that destruction releases the engine-native node; the model
  clears the handle.
\<close>

definition destroy :: "FlexNode \<Rightarrow> world \<Rightarrow> world" where
  "destroy node w = w\<lparr>yogaNode := (yogaNode w)(node := None)\<rparr>"

text \<open>
  Modelled from the spec: the creation of the engine node inside \<open>FlexNode\<close> (once the
  layout engine is loaded) is defined outside the files verified here; the model stores the
  handle.
\<close>

definition attach :: "FlexNode \<Rightarrow> YogaNode \<Rightarrow> world \<Rightarrow> world" where
  "attach node h w = w\<lparr>yogaNode := (yogaNode w)(node := Some h)\<rparr>"

text \<open>The frame hook \<open>onFrame\<close> of \<open>createDeferredRequestLayoutCalculation\<close>.\<close>

definition onFrame :: "world \<Rightarrow> world" where
  "onFrame w =
     (case requestedNode w of
        None \<Rightarrow> w
      | Some node \<Rightarrow> calculateLayout node (w\<lparr>requestedNode := None\<rparr>))"

text \<open>The function returned by \<open>createDeferredRequestLayoutCalculation\<close>.\<close>

definition requestCalculateLayout :: "FlexNode \<Rightarrow> world \<Rightarrow> world" where
  "requestCalculateLayout node w =
     (if requestedNode w \<noteq> None \<or> yogaNode w node = None then w
      else w\<lparr>requestedNode := Some node\<rparr>)"

text \<open>
  The registration part of \<open>createDeferredRequestLayoutCalculation\<close>: the closure variable
  starts out undefined, the hook is added to \<open>onFrameSet\<close> and its removal is pushed onto
  the subscription list.
\<close>

definition createDeferredRequestLayoutCalculation :: "world \<Rightarrow> world" where
  "createDeferredRequestLayoutCalculation w =
     w\<lparr>requestedNode := None,
       onFrameSet := insert DeferredLayoutOnFrame (onFrameSet w),
       subscriptions := subscriptions w @ [DeleteFrameHook DeferredLayoutOnFrame]\<rparr>"

text \<open>Several synchronous requests, first request first.\<close>

definition requestAll :: "FlexNode list \<Rightarrow> world \<Rightarrow> world" where
  "requestAll nodes w = fold requestCalculateLayout nodes w"

text \<open>What can happen to the deferred-layout state between and at frame ticks.\<close>

datatype event =
    Request FlexNode
  | FrameTick
  | Attach FlexNode YogaNode
  | Destroy FlexNode

fun step :: "event \<Rightarrow> world \<Rightarrow> world" where
  "step (Request node) w = requestCalculateLayout node w"
| "step FrameTick w = onFrame w"
| "step (Attach node h) w = attach node h w"
| "step (Destroy node) w = destroy node w"

definition run :: "event list \<Rightarrow> world \<Rightarrow> world" where
  "run es w = fold step es w"

fun attaches :: "FlexNode \<Rightarrow> event \<Rightarrow> bool" where
  "attaches node (Attach m h) = (m = node)"
| "attaches node e = False"

definition emptyWorld :: world where
  "emptyWorld =
     \<lparr>onFrameSet = {}, subscriptions = [], requestedNode = None,
      yogaNode = (\<lambda>n. None), layoutCalls = [], teardownLog = []\<rparr>"

section \<open>JavaScript numbers\<close>

text \<open>
  A JavaScript number is a binary64 floating-point value: a finite value, one of the two
  infinities, or NaN. \<open>Finite x\<close> is the finite number whose value is the real \<open>x\<close>; the
  two zeros are not told apart. Every arithmetic operation gives the exact result rounded
  to the nearest representable value, ties to the even significand; a result beyond the
  largest finite number is an infinity.
\<close>

datatype number = Finite real | PosInfinity | NegInfinity | NaN

definition roundHalfEven :: "real \<Rightarrow> int" where
  "roundHalfEven v =
     (let n = \<lfloor>v\<rfloor>; f = v - of_int n
      in if f < 1 / 2 then n
         else if 1 / 2 < f then n + 1
         else if even n then n else n + 1)"

text \<open>
  The spacing of the representable values around \<open>x\<close>: 53 significant bits, and never
  finer than the spacing of the subnormal numbers.
\<close>

definition quantumExponent :: "real \<Rightarrow> int" where
  "quantumExponent x = max (\<lfloor>log 2 \<bar>x\<bar>\<rfloor> - 52) (- 1074)"

definition quantum :: "real \<Rightarrow> real" where
  "quantum x = 2 powr of_int (quantumExponent x)"

definition maxDouble :: real where
  "maxDouble = (2 ^ 53 - 1) * 2 ^ 971"

definition roundToDouble :: "real \<Rightarrow> number" where
  "roundToDouble x =
     (if x = 0 then Finite 0
      else
        (let r = of_int (roundHalfEven (x / quantum x)) * quantum x
         in if maxDouble < \<bar>r\<bar> then (if 0 < x then PosInfinity else NegInfinity)
            else Finite r))"

fun negative :: "number \<Rightarrow> bool" where
  "negative (Finite a) = (a < 0)"
| "negative PosInfinity = False"
| "negative NegInfinity = True"
| "negative NaN = False"

definition infinity :: "bool \<Rightarrow> number" where
  "infinity neg = (if neg then NegInfinity else PosInfinity)"

fun numberNegate :: "number \<Rightarrow> number" where
  "numberNegate (Finite a) = Finite (- a)"
| "numberNegate PosInfinity = NegInfinity"
| "numberNegate NegInfinity = PosInfinity"
| "numberNegate NaN = NaN"

fun numberAdd :: "number \<Rightarrow> number \<Rightarrow> number" where
  "numberAdd NaN b = NaN"
| "numberAdd a NaN = NaN"
| "numberAdd (Finite a) (Finite b) = roundToDouble (a + b)"
| "numberAdd PosInfinity NegInfinity = NaN"
| "numberAdd NegInfinity PosInfinity = NaN"
| "numberAdd PosInfinity b = PosInfinity"
| "numberAdd NegInfinity b = NegInfinity"
| "numberAdd a PosInfinity = PosInfinity"
| "numberAdd a NegInfinity = NegInfinity"

fun numberMultiply :: "number \<Rightarrow> number \<Rightarrow> number" where
  "numberMultiply NaN b = NaN"
| "numberMultiply a NaN = NaN"
| "numberMultiply (Finite a) (Finite b) = roundToDouble (a * b)"
| "numberMultiply a b =
     (if a = Finite 0 \<or> b = Finite 0 then NaN else infinity (negative a \<noteq> negative b))"

fun numberDivide :: "number \<Rightarrow> number \<Rightarrow> number" where
  "numberDivide NaN b = NaN"
| "numberDivide a NaN = NaN"
| "numberDivide (Finite a) (Finite b) =
     (if b = 0 then (if a = 0 then NaN else infinity (a < 0))
      else roundToDouble (a / b))"
| "numberDivide (Finite a) b = Finite 0"
| "numberDivide a (Finite b) = infinity (negative a \<noteq> (b < 0))"
| "numberDivide a b = NaN"

text \<open>The operators \<open>+\<close>, \<open>-\<close>, \<open>*\<close> and \<open>/\<close> on numbers, and the literals 0 and 1.\<close>

instantiation number :: "{zero, one, plus, minus, uminus, times, inverse}"
begin

definition zero_number :: number where
  "zero_number = Finite 0"

definition one_number :: number where
  "one_number = Finite 1"

definition plus_number :: "number \<Rightarrow> number \<Rightarrow> number" where
  "plus_number a b = numberAdd a b"

definition uminus_number :: "number \<Rightarrow> number" where
  "uminus_number a = numberNegate a"

definition minus_number :: "number \<Rightarrow> number \<Rightarrow> number" where
  "minus_number a b = numberAdd a (numberNegate b)"

definition times_number :: "number \<Rightarrow> number \<Rightarrow> number" where
  "times_number a b = numberMultiply a b"

definition divide_number :: "number \<Rightarrow> number \<Rightarrow> number" where
  "divide_number a b = numberDivide a b"

definition inverse_number :: "number \<Rightarrow> number" where
  "inverse_number a = numberDivide (Finite 1) a"

instance ..

end

text \<open>A numeric literal of the source denotes the nearest number.\<close>

definition literal :: "real \<Rightarrow> number" where
  "literal x = roundToDouble x"

text \<open>A number is well formed when its value, if finite, is representable.\<close>

fun isDouble :: "number \<Rightarrow> bool" where
  "isDouble (Finite x) = (roundToDouble x = Finite x)"
| "isDouble a = True"

fun finiteDouble :: "number \<Rightarrow> bool" where
  "finiteDouble (Finite x) = (roundToDouble x = Finite x)"
| "finiteDouble a = False"

section \<open>Root lifecycle (\<open>createRoot\<close>, \<open>destroyRoot\<close>, root.ts)\<close>

text \<open>
  \<open>createRoot\<close> hands its subscription list to helpers that are defined outside the
  files verified here (\<open>setupCursorCleanup\<close>, the \<open>FlexNode\<close> constructor,
  \<open>applyTransform\<close>, \<open>createInstancedPanel\<close>, \<open>createScrollbars\<close>,
  \<open>setupLayoutListeners\<close>, \<open>setupScrollHandler\<close>, \<open>createInteractionPanel\<close>).
  The teardown callbacks they push are parameters: each is an \<open>External\<close> callback known
  by a number only, and running one has no effect on the frame hooks, which none of these
  helpers is handed except through the finished root context.
\<close>

record externalSubscriptions =
  cursorCleanupSubs :: "nat list"
  flexNodeSubs :: "nat list"
  applyTransformSubs :: "nat list"
  instancedPanelSubs :: "nat list"
  scrollbarSubs :: "nat list"
  layoutListenerSubs :: "nat list"
  scrollHandlerSubs :: "nat list"
  interactionPanelSubs :: "nat list"

definition push :: "teardown \<Rightarrow> world \<Rightarrow> world" where
  "push t w = w\<lparr>subscriptions := subscriptions w @ [t]\<rparr>"

definition pushExternal :: "nat list \<Rightarrow> world \<Rightarrow> world" where
  "pushExternal ids w = w\<lparr>subscriptions := subscriptions w @ map External ids\<rparr>"

definition addFrameHook :: "frameHook \<Rightarrow> world \<Rightarrow> world" where
  "addFrameHook h w = w\<lparr>onFrameSet := insert h (onFrameSet w)\<rparr>"

text \<open>
  The statements of \<open>createRoot\<close> that touch \<open>onFrameSet\<close> or \<open>subscriptions\<close>, in the
  order of the source. \<open>node\<close> is the reference of the \<open>FlexNode\<close> the constructor
  returns and \<open>yoga\<close> the store of engine handles at that moment.
\<close>

definition createRoot ::
  "externalSubscriptions \<Rightarrow> FlexNode \<Rightarrow> (FlexNode \<Rightarrow> YogaNode option) \<Rightarrow> world" where
  "createRoot ext node yoga =
     (let w = \<lparr>onFrameSet = {}, subscriptions = [], requestedNode = None,
                yogaNode = yoga, layoutCalls = [], teardownLog = []\<rparr>;
          w = pushExternal (cursorCleanupSubs ext) w;
          w = createDeferredRequestLayoutCalculation w;
          w = pushExternal (flexNodeSubs ext) w;
          w = push (DestroyNode node) w;
          w = pushExternal (applyTransformSubs ext) w;
          w = addFrameHook PanelGroupOnFrame w;
          w = push (DeleteFrameHook PanelGroupOnFrame) w;
          w = addFrameHook CameraDistanceOnFrame w;
          w = push (DeleteFrameHook CameraDistanceOnFrame) w;
          w = pushExternal (instancedPanelSubs ext) w;
          w = pushExternal (scrollbarSubs ext) w;
          w = pushExternal (layoutListenerSubs ext) w;
          w = pushExternal (scrollHandlerSubs ext) w;
          w = addFrameHook ScrollOnFrame w;
          w = push (DeleteFrameHook ScrollOnFrame) w;
          w = addFrameHook GlyphGroupOnFrame w;
          w = push (DeleteFrameHook GlyphGroupOnFrame) w;
          w = pushExternal (interactionPanelSubs ext) w
      in w)"

text \<open>Running one teardown callback; every run is recorded in \<open>teardownLog\<close>.\<close>

fun runTeardown :: "teardown \<Rightarrow> world \<Rightarrow> world" where
  "runTeardown (DeleteFrameHook h) w =
     w\<lparr>onFrameSet := onFrameSet w - {h}, teardownLog := teardownLog w @ [DeleteFrameHook h]\<rparr>"
| "runTeardown (DestroyNode node) w =
     (destroy node w)\<lparr>teardownLog := teardownLog w @ [DestroyNode node]\<rparr>"
| "runTeardown (External i) w = w\<lparr>teardownLog := teardownLog w @ [External i]\<rparr>"

text \<open>
  Modelled from the spec: \<open>unsubscribeSubscriptions\<close> (module utils) is defined outside
  the files verified here. The spec describes the subscription list as drained exactly once
  on destroy: the callbacks are run in order and the list is left empty.
\<close>

definition unsubscribeSubscriptions :: "world \<Rightarrow> world" where
  "unsubscribeSubscriptions w = (fold runTeardown (subscriptions w) w)\<lparr>subscriptions := []\<rparr>"

definition destroyRoot :: "world \<Rightarrow> world" where
  "destroyRoot internals = unsubscribeSubscriptions internals"

definition frameHookDeletions :: "teardown list \<Rightarrow> frameHook set" where
  "frameHookDeletions ts = {h. DeleteFrameHook h \<in> set ts}"

text \<open>
  Modelled from the spec: the frame loop, which calls the functions of \<open>onFrameSet\<close> once
  per rendered frame, is defined outside the files verified here. The spec says that within
  one frame tick all registered frame hooks run. Of the five hooks only the hook of the
  deferred layout touches the state kept here, so a frame tick runs \<open>onFrame\<close> if, and only
  if, it is registered.
\<close>

definition frameTick :: "world \<Rightarrow> world" where
  "frameTick w = (if DeferredLayoutOnFrame \<in> onFrameSet w then onFrame w else w)"

text \<open>What can happen to a root after its construction.\<close>

datatype rootEvent =
    RequestLayout FlexNode
  | Frame
  | AttachYoga FlexNode YogaNode
  | DestroyRoot

fun rootStep :: "rootEvent \<Rightarrow> world \<Rightarrow> world" where
  "rootStep (RequestLayout node) w = requestCalculateLayout node w"
| "rootStep Frame w = frameTick w"
| "rootStep (AttachYoga node h) w = attach node h w"
| "rootStep DestroyRoot w = destroyRoot w"

definition rootRun :: "rootEvent list \<Rightarrow> world \<Rightarrow> world" where
  "rootRun es w = fold rootStep es w"

text \<open>The removal of the deferred-layout hook is still on the subscription list.\<close>

definition hookGuarded :: "world \<Rightarrow> bool" where
  "hookGuarded w \<longleftrightarrow>
     DeferredLayoutOnFrame \<notin> onFrameSet w \<or>
     DeleteFrameHook DeferredLayoutOnFrame \<in> set (subscriptions w)"

definition noExternalSubscriptions :: externalSubscriptions where
  "noExternalSubscriptions =
     \<lparr>cursorCleanupSubs = [], flexNodeSubs = [], applyTransformSubs = [],
      instancedPanelSubs = [], scrollbarSubs = [], layoutListenerSubs = [],
      scrollHandlerSubs = [], interactionPanelSubs = []\<rparr>"

section \<open>Property values, reactive cells and merged properties\<close>

text \<open>
  A JavaScript value that may be \<open>undefined\<close> or \<open>null\<close>. The tests \<open>x == null\<close> and
  \<open>x ?? d\<close> of the source treat both alike.
\<close>

datatype 'a nullable = Undefined | Null | Value 'a

fun isNullish :: "'a nullable \<Rightarrow> bool" where
  "isNullish Undefined = True"
| "isNullish Null = True"
| "isNullish (Value x) = False"

text \<open>
  A property is a plain value, a signal (a reactive cell, known by its number, whose current
  value is kept in a store) or a computed signal (a function of the store, evaluated when it
  is read).
\<close>

type_synonym cell = nat

datatype 'a propertyValue =
    Plain "'a nullable"
  | Signal cell
  | Computed "(cell \<Rightarrow> 'a nullable) \<Rightarrow> 'a nullable"

text \<open>
  Modelled from the spec: \<open>readReactive\<close> (module utils) is defined outside the files
  verified here. The spec calls a property a value-or-reactive-cell; reading gives the value
  itself or the current value of the cell.
\<close>

fun readReactive :: "(cell \<Rightarrow> 'a nullable) \<Rightarrow> 'a propertyValue \<Rightarrow> 'a nullable" where
  "readReactive \<sigma> (Plain v) = v"
| "readReactive \<sigma> (Signal c) = \<sigma> c"
| "readReactive \<sigma> (Computed f) = f \<sigma>"

subsection \<open>\<open>createSizeTranslator\<close> (root.ts)\<close>

definition DEFAULT_PIXEL_SIZE :: number where
  "DEFAULT_PIXEL_SIZE = literal 0.002"

text \<open>\<open>properties.pixelSize ?? DEFAULT_PIXEL_SIZE\<close> of \<open>createRoot\<close>.\<close>

fun rootPixelSize :: "number nullable \<Rightarrow> number" where
  "rootPixelSize (Value p) = p"
| "rootPixelSize Undefined = DEFAULT_PIXEL_SIZE"
| "rootPixelSize Null = DEFAULT_PIXEL_SIZE"

text \<open>
  The computed signal that the translator creates for a value. The quotient is the
  division of numbers: it rounds, and a zero pixel size gives an infinity or NaN.
\<close>

definition sizeEntry :: "number \<Rightarrow> number propertyValue \<Rightarrow> number propertyValue" where
  "sizeEntry pixelSize value =
     Computed (\<lambda>\<sigma>. case readReactive \<sigma> value of
                       Undefined \<Rightarrow> Undefined
                     | Null \<Rightarrow> Undefined
                     | Value s \<Rightarrow> Value (s / pixelSize))"

text \<open>
  A transformer is called with the value and the target, on which it calls \<open>add\<close>. The
  class of the target is defined outside the files verified here, so a call of a
  transformer is described by the list of its calls \<open>target.add(key, value)\<close>, in order.
  The map of the closure (from values to the computed signals made for them) is passed in
  and returned.
\<close>

type_synonym 'a addCall = "string \<times> 'a propertyValue"
type_synonym sizeCache = "number propertyValue \<rightharpoonup> number propertyValue"

definition sizeTransformer ::
  "number \<Rightarrow> string \<Rightarrow> number propertyValue \<Rightarrow> sizeCache \<Rightarrow>
   sizeCache \<times> number addCall list" where
  "sizeTransformer pixelSize to value cache =
     (case cache value of
        Some entry \<Rightarrow> (cache, [(to, entry)])
      | None \<Rightarrow>
          (let entry = sizeEntry pixelSize value
           in (cache(value \<mapsto> entry), [(to, entry)])))"

text \<open>The object \<open>{ [key]: transformer }\<close> that \<open>createSizeTranslator\<close> returns.\<close>

definition createSizeTranslator ::
  "number \<Rightarrow> string \<Rightarrow> string \<Rightarrow>
   (string \<rightharpoonup> (number propertyValue \<Rightarrow> sizeCache \<Rightarrow> sizeCache \<times> number addCall list))" where
  "createSizeTranslator pixelSize key to = [key \<mapsto> sizeTransformer pixelSize to]"

text \<open>
  The map of a translator after it has been called on the given values, first call first;
  it is empty when the translator is created.
\<close>

definition cacheAfter :: "number \<Rightarrow> string \<Rightarrow> number propertyValue list \<Rightarrow> sizeCache" where
  "cacheAfter pixelSize to values =
     fold (\<lambda>v cache. fst (sizeTransformer pixelSize to v cache)) values Map.empty"

text \<open>
  What a call of the transformer registered under \<open>key\<close> writes, each written property read
  in the store \<open>\<sigma>\<close>; \<open>None\<close> when no transformer is registered under the key.
\<close>

definition transformed ::
  "(string \<rightharpoonup> (number propertyValue \<Rightarrow> sizeCache \<Rightarrow> sizeCache \<times> number addCall list)) \<Rightarrow>
   (cell \<Rightarrow> number nullable) \<Rightarrow> string \<Rightarrow> number propertyValue \<Rightarrow> sizeCache \<Rightarrow>
   (string \<times> number nullable) list option" where
  "transformed transformers \<sigma> key value cache =
     (case transformers key of
        None \<Rightarrow> None
      | Some t \<Rightarrow> Some (map (\<lambda>(k, e). (k, readReactive \<sigma> e)) (snd (t value cache))))"

text \<open>
  The pixel size and the first two entries of the object \<open>transformers\<close> of \<open>createRoot\<close>
  (the other entries come from modules outside the files verified here), for a root whose
  properties hold \<open>pixelSizeProperty\<close> under \<open>pixelSize\<close>. The entry spread later wins
  where keys coincide.
\<close>

definition rootTransformers ::
  "number nullable \<Rightarrow>
   (string \<rightharpoonup> (number propertyValue \<Rightarrow> sizeCache \<Rightarrow> sizeCache \<times> number addCall list))" where
  "rootTransformers pixelSizeProperty =
     (let pixelSize = rootPixelSize pixelSizeProperty
      in createSizeTranslator pixelSize ''sizeX'' ''width'' ++
         createSizeTranslator pixelSize ''sizeY'' ''height'')"

subsection \<open>Merged properties\<close>

text \<open>
  Modelled from the spec: the class \<open>MergedProperties\<close> (module properties/merged) is
  defined outside the files verified here. The spec says: \<open>addAll\<close> ingests the sources in
  order and applies the registered transformer as each property key is written; a transformer is a pure
  function keyed by property name that writes derived properties into the merged output;
  the merged result for a key is the first value that is not undefined when the sources are
  scanned in precedence order, resolved through the reactive cells when it is read.
  \<open>createRoot\<close> passes the default properties before the explicit ones, so a source
  ingested later has the higher precedence. The model keeps, per key, the values written so
  far (oldest first) and scans them from the newest when a key is read.
\<close>

type_synonym 'a source = "(string \<times> 'a propertyValue) list"

record 'a MergedProperties =
  transformers :: "string \<rightharpoonup> ('a propertyValue \<Rightarrow> 'a addCall list)"
  layers :: "string \<Rightarrow> 'a propertyValue list"

definition newMergedProperties ::
  "(string \<rightharpoonup> ('a propertyValue \<Rightarrow> 'a addCall list)) \<Rightarrow> 'a MergedProperties" where
  "newMergedProperties ts = \<lparr>transformers = ts, layers = (\<lambda>k. [])\<rparr>"

definition writeProperty :: "string \<Rightarrow> 'a propertyValue \<Rightarrow> 'a MergedProperties \<Rightarrow> 'a MergedProperties" where
  "writeProperty key value m = m\<lparr>layers := (layers m)(key := layers m key @ [value])\<rparr>"

definition add :: "string \<Rightarrow> 'a propertyValue \<Rightarrow> 'a MergedProperties \<Rightarrow> 'a MergedProperties" where
  "add key value m =
     (case transformers m key of
        None \<Rightarrow> writeProperty key value m
      | Some t \<Rightarrow> fold (\<lambda>(k, v). writeProperty k v) (t value) m)"

definition addSource :: "'a source option \<Rightarrow> 'a MergedProperties \<Rightarrow> 'a MergedProperties" where
  "addSource src m =
     (case src of
        None \<Rightarrow> m
      | Some kvs \<Rightarrow> fold (\<lambda>(k, v). add k v) kvs m)"

definition addAll :: "'a source option list \<Rightarrow> 'a MergedProperties \<Rightarrow> 'a MergedProperties" where
  "addAll sources m = fold addSource sources m"

fun firstDefined :: "'a nullable list \<Rightarrow> 'a nullable" where
  "firstDefined [] = Undefined"
| "firstDefined (v # vs) = (if v \<noteq> Undefined then v else firstDefined vs)"

definition read :: "(cell \<Rightarrow> 'a nullable) \<Rightarrow> 'a MergedProperties \<Rightarrow> string \<Rightarrow> 'a nullable" where
  "read \<sigma> m key = firstDefined (map (readReactive \<sigma>) (rev (layers m key)))"





text \<open>
  The transformers of \<open>createRoot\<close> in the form that the merged properties take: the
  calls that a size transformer makes do not depend on the map of its closure, so each is
  taken with the empty map.
\<close>

definition rootSizeTransformers ::
  "number nullable \<Rightarrow> (string \<rightharpoonup> (number propertyValue \<Rightarrow> number addCall list))" where
  "rootSizeTransformers pixelSizeProperty =
     (\<lambda>key. map_option (\<lambda>t value. snd (t value Map.empty))
        (rootTransformers pixelSizeProperty key))"

text \<open>The body of the computed signal \<open>mergedProperties\<close> of \<open>createRoot\<close>.\<close>

definition mergedProperties ::
  "(string \<rightharpoonup> ('a propertyValue \<Rightarrow> 'a addCall list)) \<Rightarrow> 'a source option \<Rightarrow> 'a source \<Rightarrow>
   'a MergedProperties" where
  "mergedProperties ts defaultProperties properties =
     addAll [defaultProperties, Some properties] (newMergedProperties ts)"

section \<open>Vectors, matrices and planes of the scene-graph library\<close>

text \<open>
  \<open>Vector3\<close>, \<open>Matrix3\<close>, \<open>Matrix4\<close> and \<open>Plane\<close> belong to the scene-graph library
  (three), not to the repository. The operations that root.ts calls are written out here
  as the library defines them. A matrix field \<open>nij\<close> is the entry of row \<open>i\<close> and column
  \<open>j\<close>, the order of the arguments of the library's \<open>set\<close>; the translation of a
  \<open>Matrix4\<close> is its fourth column.

  The entries of a \<open>Matrix4\<close> are of any type with its own 0, 1, addition and
  multiplication, and the matrix operations use these: with the type \<open>number\<close> every
  addition and multiplication rounds as the program does; with the real numbers they are
  exact. The operations on vectors and planes, which the camera distance uses, are stated
  over the real numbers.
\<close>

record Vector3 =
  vx :: real
  vy :: real
  vz :: real

record Matrix3 =
  m11 :: real  m12 :: real  m13 :: real
  m21 :: real  m22 :: real  m23 :: real
  m31 :: real  m32 :: real  m33 :: real

record 'n Matrix4 =
  n11 :: 'n  n12 :: 'n  n13 :: 'n  n14 :: 'n
  n21 :: 'n  n22 :: 'n  n23 :: 'n  n24 :: 'n
  n31 :: 'n  n32 :: 'n  n33 :: 'n  n34 :: 'n
  n41 :: 'n  n42 :: 'n  n43 :: 'n  n44 :: 'n

record Plane =
  normal :: Vector3
  planeConstant :: real

record Object3D =
  matrixWorld :: "real Matrix4"

definition vec :: "real \<Rightarrow> real \<Rightarrow> real \<Rightarrow> Vector3" where
  "vec a b c = \<lparr>vx = a, vy = b, vz = c\<rparr>"

definition dot :: "Vector3 \<Rightarrow> Vector3 \<Rightarrow> real" where
  "dot u v = vx u * vx v + vy u * vy v + vz u * vz v"

definition vlength :: "Vector3 \<Rightarrow> real" where
  "vlength v = sqrt (vx v * vx v + vy v * vy v + vz v * vz v)"

definition multiplyScalar :: "Vector3 \<Rightarrow> real \<Rightarrow> Vector3" where
  "multiplyScalar v s = vec (vx v * s) (vy v * s) (vz v * s)"

definition divideScalar :: "Vector3 \<Rightarrow> real \<Rightarrow> Vector3" where
  "divideScalar v s = multiplyScalar v (1 / s)"

text \<open>\<open>normalize\<close> divides by \<open>length() || 1\<close>: a vector of length zero is left as it is.\<close>

definition normalize :: "Vector3 \<Rightarrow> Vector3" where
  "normalize v = divideScalar v (if vlength v = 0 then 1 else vlength v)"

definition applyMatrix3 :: "Vector3 \<Rightarrow> Matrix3 \<Rightarrow> Vector3" where
  "applyMatrix3 v m =
     vec (m11 m * vx v + m12 m * vy v + m13 m * vz v)
         (m21 m * vx v + m22 m * vy v + m23 m * vz v)
         (m31 m * vx v + m32 m * vy v + m33 m * vz v)"

text \<open>\<open>Vector3.applyMatrix4\<close> multiplies by the matrix and divides by the perspective.\<close>

definition applyMatrix4 :: "Vector3 \<Rightarrow> real Matrix4 \<Rightarrow> Vector3" where
  "applyMatrix4 v m =
     (let w = 1 / (n41 m * vx v + n42 m * vy v + n43 m * vz v + n44 m)
      in vec ((n11 m * vx v + n12 m * vy v + n13 m * vz v + n14 m) * w)
             ((n21 m * vx v + n22 m * vy v + n23 m * vz v + n24 m) * w)
             ((n31 m * vx v + n32 m * vy v + n33 m * vz v + n34 m) * w))"

definition setFromMatrixPosition :: "real Matrix4 \<Rightarrow> Vector3" where
  "setFromMatrixPosition m = vec (n14 m) (n24 m) (n34 m)"

definition setFromMatrix4 :: "real Matrix4 \<Rightarrow> Matrix3" where
  "setFromMatrix4 m =
     \<lparr>m11 = n11 m, m12 = n12 m, m13 = n13 m,
      m21 = n21 m, m22 = n22 m, m23 = n23 m,
      m31 = n31 m, m32 = n32 m, m33 = n33 m\<rparr>"

definition determinant3 :: "Matrix3 \<Rightarrow> real" where
  "determinant3 m =
     m11 m * (m33 m * m22 m - m32 m * m23 m) +
     m21 m * (m32 m * m13 m - m33 m * m12 m) +
     m31 m * (m23 m * m12 m - m22 m * m13 m)"

text \<open>\<open>Matrix3.invert\<close>: the zero matrix when the determinant is zero.\<close>

definition invert3 :: "Matrix3 \<Rightarrow> Matrix3" where
  "invert3 m =
     (let det = determinant3 m in
      if det = 0 then
        \<lparr>m11 = 0, m12 = 0, m13 = 0, m21 = 0, m22 = 0, m23 = 0, m31 = 0, m32 = 0, m33 = 0\<rparr>
      else
        (let detInv = 1 / det in
         \<lparr>m11 = (m33 m * m22 m - m32 m * m23 m) * detInv,
          m12 = (m32 m * m13 m - m33 m * m12 m) * detInv,
          m13 = (m23 m * m12 m - m22 m * m13 m) * detInv,
          m21 = (m31 m * m23 m - m33 m * m21 m) * detInv,
          m22 = (m33 m * m11 m - m31 m * m13 m) * detInv,
          m23 = (m21 m * m13 m - m23 m * m11 m) * detInv,
          m31 = (m32 m * m21 m - m31 m * m22 m) * detInv,
          m32 = (m31 m * m12 m - m32 m * m11 m) * detInv,
          m33 = (m22 m * m11 m - m21 m * m12 m) * detInv\<rparr>))"

definition transpose3 :: "Matrix3 \<Rightarrow> Matrix3" where
  "transpose3 m =
     \<lparr>m11 = m11 m, m12 = m21 m, m13 = m31 m,
      m21 = m12 m, m22 = m22 m, m23 = m32 m,
      m31 = m13 m, m32 = m23 m, m33 = m33 m\<rparr>"

definition getNormalMatrix :: "real Matrix4 \<Rightarrow> Matrix3" where
  "getNormalMatrix m = transpose3 (invert3 (setFromMatrix4 m))"

definition coplanarPoint :: "Plane \<Rightarrow> Vector3" where
  "coplanarPoint p = multiplyScalar (normal p) (- planeConstant p)"

text \<open>
  \<open>Plane.applyMatrix4\<close>: a point of the plane is moved by the matrix, the normal by the
  normal matrix and then normalised; the constant follows from the two.
\<close>

definition planeApplyMatrix4 :: "Plane \<Rightarrow> real Matrix4 \<Rightarrow> Plane" where
  "planeApplyMatrix4 p m =
     (let normalMatrix = getNormalMatrix m;
          referencePoint = applyMatrix4 (coplanarPoint p) m;
          normal' = normalize (applyMatrix3 (normal p) normalMatrix)
      in \<lparr>normal = normal', planeConstant = - dot referencePoint normal'\<rparr>)"

definition distanceToPoint :: "Plane \<Rightarrow> Vector3 \<Rightarrow> real" where
  "distanceToPoint p point = dot (normal p) point + planeConstant p"

definition makeTranslation :: "'n::{zero,one} \<Rightarrow> 'n \<Rightarrow> 'n \<Rightarrow> 'n Matrix4" where
  "makeTranslation a b c =
     \<lparr>n11 = 1, n12 = 0, n13 = 0, n14 = a,
      n21 = 0, n22 = 1, n23 = 0, n24 = b,
      n31 = 0, n32 = 0, n33 = 1, n34 = c,
      n41 = 0, n42 = 0, n43 = 0, n44 = 1\<rparr>"

definition multiplyMatrices ::
  "'n::{plus,times} Matrix4 \<Rightarrow> 'n Matrix4 \<Rightarrow> 'n Matrix4" where
  "multiplyMatrices a b =
     \<lparr>n11 = n11 a * n11 b + n12 a * n21 b + n13 a * n31 b + n14 a * n41 b,
      n12 = n11 a * n12 b + n12 a * n22 b + n13 a * n32 b + n14 a * n42 b,
      n13 = n11 a * n13 b + n12 a * n23 b + n13 a * n33 b + n14 a * n43 b,
      n14 = n11 a * n14 b + n12 a * n24 b + n13 a * n34 b + n14 a * n44 b,
      n21 = n21 a * n11 b + n22 a * n21 b + n23 a * n31 b + n24 a * n41 b,
      n22 = n21 a * n12 b + n22 a * n22 b + n23 a * n32 b + n24 a * n42 b,
      n23 = n21 a * n13 b + n22 a * n23 b + n23 a * n33 b + n24 a * n43 b,
      n24 = n21 a * n14 b + n22 a * n24 b + n23 a * n34 b + n24 a * n44 b,
      n31 = n31 a * n11 b + n32 a * n21 b + n33 a * n31 b + n34 a * n41 b,
      n32 = n31 a * n12 b + n32 a * n22 b + n33 a * n32 b + n34 a * n42 b,
      n33 = n31 a * n13 b + n32 a * n23 b + n33 a * n33 b + n34 a * n43 b,
      n34 = n31 a * n14 b + n32 a * n24 b + n33 a * n34 b + n34 a * n44 b,
      n41 = n41 a * n11 b + n42 a * n21 b + n43 a * n31 b + n44 a * n41 b,
      n42 = n41 a * n12 b + n42 a * n22 b + n43 a * n32 b + n44 a * n42 b,
      n43 = n41 a * n13 b + n42 a * n23 b + n43 a * n33 b + n44 a * n43 b,
      n44 = n41 a * n14 b + n42 a * n24 b + n43 a * n34 b + n44 a * n44 b\<rparr>"

text \<open>\<open>this.premultiply(m)\<close> is \<open>m\<close> times \<open>this\<close>.\<close>

definition premultiply ::
  "'n::{plus,times} Matrix4 \<Rightarrow> 'n Matrix4 \<Rightarrow> 'n Matrix4" where
  "premultiply this m = multiplyMatrices m this"

definition clone :: "'n Matrix4 \<Rightarrow> 'n Matrix4" where
  "clone m = m"

text \<open>A matrix whose last row is \<open>(0, 0, 0, 1)\<close>, as every composition of translations,
  rotations and scalings is.\<close>

definition affine :: "'n::{zero,one} Matrix4 \<Rightarrow> bool" where
  "affine m \<longleftrightarrow> n41 m = 0 \<and> n42 m = 0 \<and> n43 m = 0 \<and> n44 m = 1"

section \<open>The root matrix (\<open>computeRootMatrix\<close>, root.ts)\<close>

text \<open>
  Modelled from the spec: the tables \<open>alignmentXMap\<close> and \<open>alignmentYMap\<close> (module
  utils) are defined outside the files verified here. Their keys are the anchor names of
  the spec; their numeric offsets are parameters of \<open>computeRootMatrix\<close> below.
\<close>

datatype alignmentX = XLeft | XCenter | XRight
datatype alignmentY = YTop | YCenter | YBottom

text \<open>The operator \<open>??\<close>.\<close>

fun orElse :: "'a nullable \<Rightarrow> 'a \<Rightarrow> 'a" where
  "orElse (Value a) d = a"
| "orElse Undefined d = d"
| "orElse Null d = d"

text \<open>
  The body of the computed signal of \<open>computeRootMatrix\<close>. The getter made by
  \<open>createGetBatchedProperties\<close> is defined outside the files verified here: \<open>anchorX\<close> and
  \<open>anchorY\<close> stand for the results of \<open>get('anchorX')\<close> and \<open>get('anchorY')\<close>, with the
  types the source casts them to. The result is undefined when the transform matrix is.
\<close>

definition computeRootMatrix ::
  "(alignmentX \<Rightarrow> 'n::{zero,one,plus,times}) \<Rightarrow> (alignmentY \<Rightarrow> 'n) \<Rightarrow>
   alignmentX nullable \<Rightarrow> alignmentY nullable \<Rightarrow>
   'n Matrix4 nullable \<Rightarrow> 'n \<times> 'n \<Rightarrow> 'n \<Rightarrow> 'n Matrix4 nullable" where
  "computeRootMatrix alignmentXMap alignmentYMap anchorX anchorY matrix rootSize pixelSize =
     (case rootSize of (width, height) \<Rightarrow>
        (case matrix of
           Undefined \<Rightarrow> Undefined
         | Null \<Rightarrow> Undefined
         | Value m \<Rightarrow>
             Value (premultiply (clone m)
               (makeTranslation
                 (alignmentXMap (orElse anchorX XCenter) * width * pixelSize)
                 (alignmentYMap (orElse anchorY YCenter) * height * pixelSize)
                 0))))"

text \<open>The X and Y components of the translation of a matrix.\<close>

definition translationX :: "'n Matrix4 \<Rightarrow> 'n" where
  "translationX m = n14 m"

definition translationY :: "'n Matrix4 \<Rightarrow> 'n" where
  "translationY m = n24 m"

section \<open>The camera distance (\<open>onCameraDistanceFrame\<close> of \<open>createRoot\<close>, root.ts)\<close>

text \<open>
  The hook writes \<open>ctx.cameraDistance\<close> and the two module-level helpers \<open>planeHelper\<close> and
  \<open>vectorHelper\<close>; \<open>cameraCalls\<close> counts the calls of \<open>getCamera\<close>. \<open>objectCurrent\<close> is
  \<open>object.current\<close> and \<open>camera\<close> the object that \<open>getCamera()\<close> returns.
\<close>

record frameState =
  cameraDistance :: real
  planeHelper :: Plane
  vectorHelper :: Vector3
  cameraCalls :: nat

definition onCameraDistanceFrame ::
  "Object3D nullable \<Rightarrow> Object3D \<Rightarrow> frameState \<Rightarrow> frameState" where
  "onCameraDistanceFrame objectCurrent camera st =
     (case objectCurrent of
        Undefined \<Rightarrow> st\<lparr>cameraDistance := 0\<rparr>
      | Null \<Rightarrow> st\<lparr>cameraDistance := 0\<rparr>
      | Value object \<Rightarrow>
          (let plane = (planeHelper st)\<lparr>normal := vec 0 0 1\<rparr>;
               plane = plane\<lparr>planeConstant := 0\<rparr>;
               plane = planeApplyMatrix4 plane (matrixWorld object);
               vector = setFromMatrixPosition (matrixWorld camera)
           in st\<lparr>planeHelper := plane,
                 vectorHelper := vector,
                 cameraCalls := cameraCalls st + 1,
                 cameraDistance := distanceToPoint plane vector\<rparr>))"





section \<open>Batched writes to signals (\<open>Image.setProperties\<close>)\<close>

text \<open>
  The signals library is not part of the repository. Its contract, as far as
  \<open>setProperties\<close> depends on it: a write stores the new value at once; if the value has
  changed, every dependent subscribed to the signal is notified; a notified dependent is
  queued, once; the queue is run when the outermost batch ends, and a write outside a batch
  is a batch of its own. A dependent that runs reads the current values of the signals;
  what it reads is recorded in \<open>observations\<close>, oldest first. The values of the two
  signals are references to property objects: equality of values is identity of the
  objects, which is what the setter of a signal compares.
\<close>

datatype signalId = PropertiesSignal | DefaultPropertiesSignal

record ('p, 'd) reactive =
  propertiesValue :: 'p
  defaultPropertiesValue :: 'd
  subscribers :: "signalId \<Rightarrow> nat list"
  batchDepth :: nat
  queued :: "nat list"
  observations :: "nat \<Rightarrow> ('p \<times> 'd) list"

definition enqueue :: "nat \<Rightarrow> nat list \<Rightarrow> nat list" where
  "enqueue e q = (if e \<in> set q then q else q @ [e])"

definition notify :: "signalId \<Rightarrow> ('p, 'd) reactive \<Rightarrow> ('p, 'd) reactive" where
  "notify c s = s\<lparr>queued := fold enqueue (subscribers s c) (queued s)\<rparr>"

definition runDependent :: "nat \<Rightarrow> ('p, 'd) reactive \<Rightarrow> ('p, 'd) reactive" where
  "runDependent e s =
     s\<lparr>observations := (observations s)
          (e := observations s e @ [(propertiesValue s, defaultPropertiesValue s)])\<rparr>"

definition startBatch :: "('p, 'd) reactive \<Rightarrow> ('p, 'd) reactive" where
  "startBatch s = s\<lparr>batchDepth := batchDepth s + 1\<rparr>"

definition endBatch :: "('p, 'd) reactive \<Rightarrow> ('p, 'd) reactive" where
  "endBatch s =
     (if batchDepth s > 1 then s\<lparr>batchDepth := batchDepth s - 1\<rparr>
      else (fold runDependent (queued s) s)\<lparr>queued := [], batchDepth := 0\<rparr>)"

definition batch ::
  "(('p, 'd) reactive \<Rightarrow> ('p, 'd) reactive) \<Rightarrow> ('p, 'd) reactive \<Rightarrow> ('p, 'd) reactive" where
  "batch fn s = (if batchDepth s > 0 then fn s else endBatch (fn (startBatch s)))"

text \<open>The setters of \<open>propertiesSignal.value\<close> and \<open>defaultPropertiesSignal.value\<close>.\<close>

definition setPropertiesSignal :: "'p \<Rightarrow> ('p, 'd) reactive \<Rightarrow> ('p, 'd) reactive" where
  "setPropertiesSignal v s =
     (if v = propertiesValue s then s
      else endBatch (notify PropertiesSignal (startBatch (s\<lparr>propertiesValue := v\<rparr>))))"

definition setDefaultPropertiesSignal :: "'d \<Rightarrow> ('p, 'd) reactive \<Rightarrow> ('p, 'd) reactive" where
  "setDefaultPropertiesSignal v s =
     (if v = defaultPropertiesValue s then s
      else endBatch (notify DefaultPropertiesSignal
             (startBatch (s\<lparr>defaultPropertiesValue := v\<rparr>))))"

text \<open>\<open>Image.setProperties\<close>: both writes inside one batch, the properties first.\<close>

definition setProperties :: "'p \<Rightarrow> 'd \<Rightarrow> ('p, 'd) reactive \<Rightarrow> ('p, 'd) reactive" where
  "setProperties properties defaultProperties s =
     batch (\<lambda>s. setDefaultPropertiesSignal defaultProperties
                  (setPropertiesSignal properties s)) s"

text \<open>The same two writes without the batch, for comparison.\<close>

definition setPropertiesUnbatched :: "'p \<Rightarrow> 'd \<Rightarrow> ('p, 'd) reactive \<Rightarrow> ('p, 'd) reactive" where
  "setPropertiesUnbatched properties defaultProperties s =
     setDefaultPropertiesSignal defaultProperties (setPropertiesSignal properties s)"

section \<open>Properties of the numbers\<close>

lemma roundHalfEven_of_int: "roundHalfEven (of_int n) = n"
  by (simp add: roundHalfEven_def)

lemma roundHalfEven_unique:
  assumes "\<bar>of_int n - v\<bar> < 1 / 2"
  shows "roundHalfEven v = n"
proof (cases "of_int n \<le> v")
  case True
  with assms have "\<lfloor>v\<rfloor> = n" by (intro floor_unique) auto
  with assms True show ?thesis by (simp add: roundHalfEven_def Let_def)
next
  case False
  with assms have f: "\<lfloor>v\<rfloor> = n - 1" by (intro floor_unique) auto
  from assms False have "1 / 2 < v - of_int (n - 1)" by simp
  with f show ?thesis by (simp add: roundHalfEven_def Let_def)
qed

lemma roundHalfEven_near: "\<bar>of_int (roundHalfEven v) - v\<bar> \<le> 1 / 2"
proof -
  have "of_int \<lfloor>v\<rfloor> \<le> v" and "v < of_int \<lfloor>v\<rfloor> + 1" by linarith+
  then show ?thesis
    by (auto simp: roundHalfEven_def Let_def)
qed

lemma quantumExponent_eq:
  assumes "2 powr of_int e \<le> \<bar>x\<bar>" and "\<bar>x\<bar> < 2 powr of_int (e + 1)"
  shows "quantumExponent x = max (e - 52) (- 1074)"
proof -
  from assms(1) have "0 < \<bar>x\<bar>"
    by (smt (verit) powr_gt_zero)
  then have "\<lfloor>log 2 \<bar>x\<bar>\<rfloor> = e"
    using assms by (simp add: floor_log_eq_powr_iff)
  then show ?thesis by (simp add: quantumExponent_def)
qed

lemma roundToDouble_eval_gen:
  assumes "2 powr of_int e \<le> \<bar>x\<bar>" and "\<bar>x\<bar> < 2 powr of_int (e + 1)"
    and "q = 2 powr of_int (max (e - 52) (- 1074))"
    and "roundHalfEven (x / q) = n"
    and "\<bar>of_int n * q\<bar> \<le> maxDouble"
  shows "roundToDouble x = Finite (of_int n * q)"
proof -
  from assms(1) have nz: "x \<noteq> 0"
    by (smt (verit) powr_gt_zero)
  have q: "quantum x = q"
    by (simp add: quantum_def quantumExponent_eq [OF assms(1,2)] assms(3))
  with nz assms(4) assms(5) show ?thesis
    by (simp add: roundToDouble_def Let_def)
qed

lemma roundToDouble_eval:
  assumes "2 powr of_int e \<le> \<bar>x\<bar>" and "\<bar>x\<bar> < 2 powr of_int (e + 1)"
    and "q = 2 powr of_int (max (e - 52) (- 1074))"
    and "\<bar>of_int n - x / q\<bar> < 1 / 2"
    and "\<bar>of_int n * q\<bar> \<le> maxDouble"
  shows "roundToDouble x = Finite (of_int n * q)"
  using assms(1-3) roundHalfEven_unique [OF assms(4)] assms(5)
  by (rule roundToDouble_eval_gen)

lemma default_pixel_size_value:
  "roundToDouble 0.002 = Finite (4611686018427388 / 2 ^ 61)"
proof -
  have "roundToDouble 0.002 = Finite (of_int 4611686018427388 * (1 / 2 ^ 61))"
    by (rule roundToDouble_eval [where e = "- 9"])
       (simp_all add: maxDouble_def powr_neg_numeral)
  then show ?thesis by simp
qed

lemma hundred_by_default:
  "Finite 100 / roundToDouble 0.002 = Finite 50000"
proof -
  have r: "roundToDouble (100 / (4611686018427388 / 2 ^ 61)) =
      Finite (of_int 6871947673600000 * (1 / 2 ^ 37))"
    by (rule roundToDouble_eval [where e = 15])
       (simp_all add: maxDouble_def powr_neg_numeral)
  have "Finite 100 / roundToDouble 0.002 =
      numberDivide (Finite 100) (Finite (4611686018427388 / 2 ^ 61))"
    by (simp only: divide_number_def default_pixel_size_value)
  also have "\<dots> = roundToDouble (100 / (4611686018427388 / 2 ^ 61))"
    by simp
  also have "\<dots> = Finite 50000"
    by (simp only: r) simp
  finally show ?thesis .
qed

lemma powr_int_mono: "a \<le> b \<Longrightarrow> (2::real) powr of_int a \<le> 2 powr of_int b"
  by (simp add: powr_mono)

lemma powr_int_Suc: "(2::real) powr of_int (k + 1) = 2 * 2 powr of_int k"
  by (simp add: powr_add)

lemma powr_int_Suc': "(2::real) powr (of_int k + 1) = 2 * 2 powr of_int k"
  by (simp add: powr_add)

lemma quantumExponent_subnormal:
  assumes "r \<noteq> 0" and "\<bar>r\<bar> \<le> 2 powr of_int (- 1022)"
  shows "quantumExponent r = - 1074"
proof -
  from assms(1) have pos: "0 < \<bar>r\<bar>" by simp
  have "\<lfloor>log 2 \<bar>r\<bar>\<rfloor> \<le> - 1022"
  proof -
    have "log 2 \<bar>r\<bar> \<le> of_int (- 1022)"
      using pos assms(2) by (simp add: log_le_iff)
    then show ?thesis by (simp add: floor_le_iff)
  qed
  then have "\<lfloor>log 2 \<bar>r\<bar>\<rfloor> - 52 \<le> - 1074" by linarith
  then show ?thesis unfolding quantumExponent_def by (rule max_absorb2)
qed

lemma int_round_bounds:
  fixes n :: int and v :: real
  assumes "\<bar>of_int n - v\<bar> \<le> 1 / 2"
  shows "\<bar>v\<bar> < of_int b \<Longrightarrow> \<bar>n\<bar> \<le> b"
    and "of_int b \<le> \<bar>v\<bar> \<Longrightarrow> b \<le> \<bar>n\<bar>"
proof -
  assume "\<bar>v\<bar> < of_int b"
  with assms have "of_int \<bar>n\<bar> < (of_int b + 1 :: real)" by (simp add: abs_if split: if_splits)
  then have "of_int \<bar>n\<bar> < (of_int (b + 1) :: real)" by simp
  then have "\<bar>n\<bar> < b + 1" by (simp only: of_int_less_iff)
  then show "\<bar>n\<bar> \<le> b" by simp
next
  assume "of_int b \<le> \<bar>v\<bar>"
  with assms have "(of_int (b - 1) :: real) < of_int \<bar>n\<bar>" by (simp add: abs_if split: if_splits)
  then have "b - 1 < \<bar>n\<bar>" by (simp only: of_int_less_iff)
  then show "b \<le> \<bar>n\<bar>" by simp
qed

lemma roundToDouble_idem:
  assumes "roundToDouble x = Finite r"
  shows "roundToDouble r = Finite r"
proof (cases "x = 0")
  case True
  with assms show ?thesis by (simp add: roundToDouble_def)
next
  case False
  define e where "e = \<lfloor>log 2 \<bar>x\<bar>\<rfloor>"
  define k where "k = max (e - 52) (- 1074)"
  define q where "q = (2::real) powr of_int k"
  define n where "n = roundHalfEven (x / q)"
  define E where "E = (2::real) powr of_int e"
  from False have xpos: "0 < \<bar>x\<bar>" by simp
  have "2 powr of_int e \<le> \<bar>x\<bar>" and "\<bar>x\<bar> < 2 powr of_int (e + 1)"
    using floor_log_eq_powr_iff [of "\<bar>x\<bar>" 2 e] xpos by (simp_all add: e_def)
  then have lo: "E \<le> \<bar>x\<bar>" and hi: "\<bar>x\<bar> < 2 * E"
    unfolding powr_int_Suc E_def by simp_all
  have qx: "quantum x = q"
    by (simp add: quantum_def quantumExponent_def q_def k_def e_def)
  have qpos: "0 < q" by (simp add: q_def)
  from assms False have r: "r = of_int n * q" and rmax: "\<bar>r\<bar> \<le> maxDouble"
    by (simp_all add: roundToDouble_def Let_def qx n_def split: if_splits)
  have near: "\<bar>of_int n - x / q\<bar> \<le> 1 / 2"
    unfolding n_def by (rule roundHalfEven_near)
  have xq: "\<bar>x / q\<bar> = \<bar>x\<bar> / q" using qpos by simp
  have absr: "\<bar>r\<bar> = of_int \<bar>n\<bar> * q"
    using qpos by (simp add: r abs_mult)
  show ?thesis
  proof (cases "n = 0")
    case True
    with r show ?thesis by (simp add: roundToDouble_def)
  next
    case nz: False
    show ?thesis
    proof (cases "- 1074 \<le> e - 52")
      case True
      then have k: "k = e - 52" by (simp add: k_def)
      have Eq: "E = 2 ^ 52 * q"
      proof -
        have "of_int e = of_int k + (52::real)" by (simp add: k)
        then have "E = 2 powr (of_int k + 52)" by (simp only: E_def)
        also have "\<dots> = 2 powr of_int k * 2 powr 52" by (simp only: powr_add)
        finally show ?thesis by (simp add: q_def mult.commute)
      qed
      from lo hi have "2 ^ 52 \<le> \<bar>x / q\<bar>" and "\<bar>x / q\<bar> < 2 ^ 53"
        using qpos by (simp_all add: xq Eq field_simps)
      then have "of_int (2 ^ 52) \<le> \<bar>x / q\<bar>" and "\<bar>x / q\<bar> < of_int (2 ^ 53)"
        by simp_all
      from int_round_bounds(2) [OF near this(1)] int_round_bounds(1) [OF near this(2)]
      have nlo: "2 ^ 52 \<le> \<bar>n\<bar>" and nhi: "\<bar>n\<bar> \<le> 2 ^ 53" .
      from nlo have rlo: "(2 ^ 52 :: real) \<le> of_int \<bar>n\<bar>"
        by (metis of_int_le_iff of_int_numeral of_int_power)
      show ?thesis
      proof (cases "\<bar>n\<bar> = 2 ^ 53")
        case False
        with nhi have "\<bar>n\<bar> < 2 ^ 53" by simp
        then have rhi: "(of_int \<bar>n\<bar> :: real) < 2 ^ 53"
          by (metis of_int_less_iff of_int_numeral of_int_power)
        from rlo rhi qpos have "2 ^ 52 * q \<le> of_int \<bar>n\<bar> * q"
          and "of_int \<bar>n\<bar> * q < 2 ^ 53 * q"
          by (simp_all only: mult_le_cancel_right_pos mult_less_cancel_right_pos)
        then have "E \<le> \<bar>r\<bar>" and "\<bar>r\<bar> < 2 * E"
          by (simp_all only: absr [symmetric] Eq) simp_all
        then have "2 powr of_int e \<le> \<bar>r\<bar>" and "\<bar>r\<bar> < 2 powr of_int (e + 1)"
          unfolding powr_int_Suc E_def by simp_all
        moreover have "q = 2 powr of_int (max (e - 52) (- 1074))"
          by (simp only: q_def k_def)
        moreover have "\<bar>of_int n - r / q\<bar> < 1 / 2"
          using qpos by (simp add: r)
        moreover have "\<bar>of_int n * q\<bar> \<le> maxDouble"
          using rmax by (simp add: r)
        ultimately have "roundToDouble r = Finite (of_int n * q)"
          by (rule roundToDouble_eval)
        then show ?thesis by (simp add: r)
      next
        case top: True
        then have an: "(of_int \<bar>n\<bar> :: real) = 2 ^ 53"
          by (metis of_int_numeral of_int_power)
        have "even \<bar>n\<bar>" unfolding top by simp
        then have ev: "even n" by simp
        then have half: "(of_int (n div 2) :: real) = of_int n / 2"
          by (simp add: real_of_int_div)
        have "\<bar>r\<bar> = 2 ^ 53 * q" by (simp only: absr an)
        also have "\<dots> = 2 * E" by (simp add: Eq)
        finally have "\<bar>r\<bar> = 2 * E" .
        then have "2 * E \<le> \<bar>r\<bar>" and "\<bar>r\<bar> < 2 * (2 * E)"
          using qpos by (simp_all add: Eq)
        then have "2 powr of_int (e + 1) \<le> \<bar>r\<bar>" and "\<bar>r\<bar> < 2 powr of_int (e + 1 + 1)"
          unfolding powr_int_Suc E_def by simp_all
        moreover have "2 * q = 2 powr of_int (max (e + 1 - 52) (- 1074))"
        proof -
          from True have "max (e + 1 - 52) (- 1074) = k + 1" by (simp add: k)
          then show ?thesis by (simp only: powr_int_Suc q_def)
        qed
        moreover have "\<bar>of_int (n div 2) - r / (2 * q)\<bar> < 1 / 2"
          using qpos by (simp add: r half)
        moreover have "\<bar>of_int (n div 2) * (2 * q)\<bar> \<le> maxDouble"
          using rmax by (simp add: r half)
        ultimately have "roundToDouble r = Finite (of_int (n div 2) * (2 * q))"
          by (rule roundToDouble_eval)
        then show ?thesis by (simp add: r half)
      qed
    next
      case False
      then have k: "k = - 1074" and e: "e + 1 \<le> - 1022" by (simp_all add: k_def)
      have q52: "2 ^ 52 * q = 2 powr of_int (- 1022)"
      proof -
        have "of_int (- 1022) = of_int (- 1074) + (52::real)" by simp
        then have "(2::real) powr of_int (- 1022) = 2 powr (of_int (- 1074) + 52)"
          by (simp only:)
        also have "\<dots> = 2 powr of_int (- 1074) * 2 powr 52" by (simp only: powr_add)
        finally show ?thesis by (simp add: q_def k mult.commute)
      qed
      have "2 * E = 2 powr of_int (e + 1)" by (simp only: powr_int_Suc E_def)
      also have "\<dots> \<le> 2 powr of_int (- 1022)"
        using e by (rule powr_int_mono)
      finally have "\<bar>x\<bar> < 2 ^ 52 * q" using hi by (simp only: q52)
      then have "\<bar>x / q\<bar> < of_int (2 ^ 52)"
        using qpos by (simp add: xq field_simps)
      from int_round_bounds(1) [OF near this] have nhi: "\<bar>n\<bar> \<le> 2 ^ 52" .
      then have "(of_int \<bar>n\<bar> :: real) \<le> 2 ^ 52"
        by (metis of_int_le_iff of_int_numeral of_int_power)
      with qpos have "of_int \<bar>n\<bar> * q \<le> 2 ^ 52 * q"
        by (simp only: mult_le_cancel_right_pos)
      then have "\<bar>r\<bar> \<le> 2 ^ 52 * q"
        by (simp only: absr)
      then have small: "\<bar>r\<bar> \<le> 2 powr of_int (- 1022)" by (simp only: q52)
      from nz qpos have rnz: "r \<noteq> 0" by (simp add: r)
      have "quantum r = q"
        by (simp only: quantum_def quantumExponent_subnormal [OF rnz small] q_def k)
      moreover have "roundHalfEven (r / q) = n"
        using qpos by (simp add: r roundHalfEven_of_int)
      ultimately show ?thesis
        using rnz rmax by (simp add: roundToDouble_def Let_def r)
    qed
  qed
qed

lemma roundToDouble_zero: "roundToDouble 0 = Finite 0"
  by (simp add: roundToDouble_def)

lemma isDouble_roundToDouble: "isDouble (roundToDouble x)"
proof (cases "roundToDouble x")
  case (Finite r)
  then have "roundToDouble r = Finite r" by (rule roundToDouble_idem)
  with Finite show ?thesis by simp
qed simp_all

lemma isDouble_literal: "isDouble (literal x)"
  by (simp add: literal_def isDouble_roundToDouble)

lemma isDouble_times: "isDouble (a * (b :: number))"
  by (cases a; cases b) (simp_all add: times_number_def infinity_def isDouble_roundToDouble)

lemma isDouble_plus: "isDouble (a + (b :: number))"
  by (cases a; cases b) (simp_all add: plus_number_def isDouble_roundToDouble)

lemma isDouble_divide: "isDouble (a / (b :: number))"
  by (cases a; cases b) (simp_all add: divide_number_def infinity_def isDouble_roundToDouble roundToDouble_zero)

lemma finiteDouble_isDouble: "finiteDouble v \<Longrightarrow> isDouble v"
  by (cases v) simp_all

lemma times_one_number: "isDouble v \<Longrightarrow> v * 1 = v" "isDouble v \<Longrightarrow> 1 * v = v"
  by (cases v; simp add: times_number_def one_number_def infinity_def)+

lemma plus_zero_number: "isDouble v \<Longrightarrow> v + 0 = v" "isDouble v \<Longrightarrow> 0 + v = v"
  by (cases v; simp add: plus_number_def zero_number_def)+

lemma zero_times_number: "finiteDouble v \<Longrightarrow> 0 * v = 0" "finiteDouble v \<Longrightarrow> v * 0 = 0"
  by (cases v; simp add: times_number_def zero_number_def roundToDouble_def)+

lemma finiteDouble_small_integers:
  "finiteDouble 0" "finiteDouble 1" "finiteDouble (Finite 1)" "finiteDouble (Finite 2)"
  "finiteDouble (Finite 3)"
proof -
  show "finiteDouble 0" by (simp add: zero_number_def roundToDouble_def)
  have one: "roundToDouble 1 = Finite (of_int 4503599627370496 * (1 / 2 ^ 52))"
    by (rule roundToDouble_eval [where e = 0]) (simp_all add: maxDouble_def powr_neg_numeral)
  then show "finiteDouble 1" and "finiteDouble (Finite 1)" by (simp_all add: one_number_def)
  have "roundToDouble 2 = Finite (of_int 4503599627370496 * (1 / 2 ^ 51))"
    by (rule roundToDouble_eval [where e = 1]) (simp_all add: maxDouble_def powr_neg_numeral)
  then show "finiteDouble (Finite 2)" by simp
  have "roundToDouble 3 = Finite (of_int 6755399441055744 * (1 / 2 ^ 51))"
    by (rule roundToDouble_eval [where e = 1]) (simp_all add: maxDouble_def powr_neg_numeral)
  then show "finiteDouble (Finite 3)" by simp
qed
section \<open>Properties of the deferred layout\<close>

lemma requestAll_pending:
  "requestedNode w \<noteq> None \<Longrightarrow> requestAll nodes w = w"
  by (induction nodes arbitrary: w)
     (simp_all add: requestAll_def requestCalculateLayout_def)

lemma requestCalculateLayout_first:
  "requestedNode w = None \<Longrightarrow> yogaNode w node \<noteq> None \<Longrightarrow>
   requestCalculateLayout node w = w\<lparr>requestedNode := Some node\<rparr>"
  by (simp add: requestCalculateLayout_def)

lemma requestAll_Cons:
  "requestAll (node # nodes) w = requestAll nodes (requestCalculateLayout node w)"
  by (simp add: requestAll_def)

text \<open>
  C1. Starting from an empty pending slot (the state at the start of a frame interval), any
  non-empty sequence of requests on nodes that all have an engine handle leaves exactly the
  first node pending; the next run of the frame hook then invokes \<open>calculateLayout\<close>
  exactly once, on that first node, and empties the pending slot.
\<close>

theorem deferred_layout_coalesces:
  assumes "requestedNode w = None"
    and "nodes \<noteq> []"
    and "\<forall>n \<in> set nodes. yogaNode w n \<noteq> None"
  shows "requestedNode (requestAll nodes w) = Some (hd nodes) \<and>
         layoutCalls (requestAll nodes w) = layoutCalls w \<and>
         layoutCalls (onFrame (requestAll nodes w)) = layoutCalls w @ [hd nodes] \<and>
         requestedNode (onFrame (requestAll nodes w)) = None"
proof -
  from assms(2) obtain n ns where nodes: "nodes = n # ns"
    by (cases nodes) auto
  with assms(3) have "yogaNode w n \<noteq> None" by simp
  with assms(1) have first: "requestCalculateLayout n w = w\<lparr>requestedNode := Some n\<rparr>"
    by (rule requestCalculateLayout_first)
  have "requestAll nodes w = requestAll ns (w\<lparr>requestedNode := Some n\<rparr>)"
    by (simp add: nodes requestAll_Cons first)
  also have "\<dots> = w\<lparr>requestedNode := Some n\<rparr>"
    by (rule requestAll_pending) simp
  finally have "requestAll nodes w = w\<lparr>requestedNode := Some n\<rparr>" .
  then show ?thesis
    by (simp add: nodes onFrame_def calculateLayout_def)
qed

theorem deferred_layout_coalesces_witness:
  "requestedNode (requestAll [3, 5, 3] (attach 5 8 (attach 3 7 emptyWorld))) = Some 3 \<and>
   layoutCalls (onFrame (requestAll [3, 5, 3] (attach 5 8 (attach 3 7 emptyWorld)))) = [3] \<and>
   requestedNode (onFrame (requestAll [3, 5, 3] (attach 5 8 (attach 3 7 emptyWorld)))) = None"
  using deferred_layout_coalesces [of "attach 5 8 (attach 3 7 emptyWorld)" "[3, 5, 3]"]
  by (simp add: attach_def emptyWorld_def)

lemma step_keeps_unattached:
  assumes "\<not> attaches n e" and "yogaNode w n = None" and "requestedNode w \<noteq> Some n"
  shows "yogaNode (step e w) n = None \<and> requestedNode (step e w) \<noteq> Some n \<and>
         filter (\<lambda>m. m = n) (layoutCalls (step e w)) = filter (\<lambda>m. m = n) (layoutCalls w)"
proof (cases e)
  case (Request m)
  with assms show ?thesis
    by (auto simp: requestCalculateLayout_def)
next
  case FrameTick
  with assms show ?thesis
    by (auto simp: onFrame_def calculateLayout_def split: option.splits)
next
  case (Attach m h)
  with assms show ?thesis
    by (auto simp: attach_def)
next
  case (Destroy m)
  with assms show ?thesis
    by (auto simp: destroy_def)
qed

lemma run_keeps_unattached:
  assumes "\<forall>e \<in> set es. \<not> attaches n e"
    and "yogaNode w n = None" and "requestedNode w \<noteq> Some n"
  shows "yogaNode (run es w) n = None \<and> requestedNode (run es w) \<noteq> Some n \<and>
         filter (\<lambda>m. m = n) (layoutCalls (run es w)) = filter (\<lambda>m. m = n) (layoutCalls w)"
  using assms
proof (induction es arbitrary: w)
  case Nil
  then show ?case by (simp add: run_def)
next
  case (Cons e es)
  from Cons.prems have e: "\<not> attaches n e" by simp
  note s = step_keeps_unattached [OF e Cons.prems(2) Cons.prems(3)]
  from Cons.prems(1) have rest: "\<forall>e \<in> set es. \<not> attaches n e" by simp
  from s have "yogaNode (step e w) n = None" and "requestedNode (step e w) \<noteq> Some n"
    by simp_all
  from Cons.IH [OF rest this] s show ?case by (simp add: run_def)
qed

text \<open>
  A node that has never had a handle is neither pending nor has it been laid out: the two
  conditions hold in every state reached from the empty world without attaching the node.
\<close>

lemma never_attached_never_pending:
  assumes "\<forall>e \<in> set es. \<not> attaches n e"
  shows "yogaNode (run es emptyWorld) n = None \<and>
         requestedNode (run es emptyWorld) \<noteq> Some n \<and>
         n \<notin> set (layoutCalls (run es emptyWorld))"
proof -
  have "yogaNode emptyWorld n = None" and "requestedNode emptyWorld \<noteq> Some n"
    by (simp_all add: emptyWorld_def)
  from run_keeps_unattached [OF assms this]
  have "yogaNode (run es emptyWorld) n = None"
    and "requestedNode (run es emptyWorld) \<noteq> Some n"
    and "filter (\<lambda>m. m = n) (layoutCalls (run es emptyWorld)) = []"
    by (simp_all add: emptyWorld_def)
  then show ?thesis by (auto simp: filter_empty_conv)
qed

text \<open>
  C7. A request on a node without engine handle changes nothing. If the node is not pending
  (a node that never had a handle cannot be, since only nodes with a handle are recorded)
  and never receives a handle in the events that follow, then it does not become pending and
  no call of \<open>calculateLayout\<close> on it is added, whatever requests, frame ticks and
  destructions follow.
\<close>

theorem request_without_handle_is_noop:
  assumes "yogaNode w n = None"
    and "requestedNode w \<noteq> Some n"
    and "\<forall>e \<in> set es. \<not> attaches n e"
  shows "requestCalculateLayout n w = w \<and>
         requestedNode (run (Request n # es) w) \<noteq> Some n \<and>
         filter (\<lambda>m. m = n) (layoutCalls (run (Request n # es) w)) =
           filter (\<lambda>m. m = n) (layoutCalls w)"
proof -
  from assms(1) have noop: "requestCalculateLayout n w = w"
    by (simp add: requestCalculateLayout_def)
  then have "run (Request n # es) w = run es w"
    by (simp add: run_def)
  with noop run_keeps_unattached [OF assms(3) assms(1) assms(2)] show ?thesis
    by simp
qed

theorem request_without_handle_is_noop_witness:
  "requestCalculateLayout 4 (attach 3 7 emptyWorld) = attach 3 7 emptyWorld \<and>
   requestedNode (run [Request 4, Request 3, FrameTick, Request 4, Destroy 3, FrameTick]
     (attach 3 7 emptyWorld)) \<noteq> Some 4 \<and>
   filter (\<lambda>m. m = 4)
     (layoutCalls (run [Request 4, Request 3, FrameTick, Request 4, Destroy 3, FrameTick]
       (attach 3 7 emptyWorld))) = []"
  using request_without_handle_is_noop
    [of "attach 3 7 emptyWorld" 4 "[Request 3, FrameTick, Request 4, Destroy 3, FrameTick]"]
  by (simp add: attach_def emptyWorld_def)

section \<open>Properties of the root lifecycle\<close>

lemma runTeardown_fields:
  "teardownLog (runTeardown t w) = teardownLog w @ [t]"
  "subscriptions (runTeardown t w) = subscriptions w"
  "requestedNode (runTeardown t w) = requestedNode w"
  "layoutCalls (runTeardown t w) = layoutCalls w"
  by (cases t; simp add: destroy_def)+

lemma fold_runTeardown_log:
  "teardownLog (fold runTeardown ts w) = teardownLog w @ ts"
  by (induction ts arbitrary: w) (simp_all add: runTeardown_fields)

lemma fold_runTeardown_subscriptions:
  "subscriptions (fold runTeardown ts w) = subscriptions w"
  by (induction ts arbitrary: w) (simp_all add: runTeardown_fields)

lemma runTeardown_onFrameSet:
  "onFrameSet (runTeardown t w) = onFrameSet w - frameHookDeletions [t]"
  by (cases t) (auto simp: frameHookDeletions_def destroy_def)

lemma fold_runTeardown_onFrameSet:
  "onFrameSet (fold runTeardown ts w) = onFrameSet w - frameHookDeletions ts"
proof (induction ts arbitrary: w)
  case Nil
  show ?case by (simp add: frameHookDeletions_def)
next
  case (Cons t ts)
  have "frameHookDeletions (t # ts) = frameHookDeletions [t] \<union> frameHookDeletions ts"
    by (auto simp: frameHookDeletions_def)
  with Cons show ?case
    by (simp add: runTeardown_onFrameSet Diff_eq Int_assoc)
qed

lemma destroyRoot_drained:
  "subscriptions w = [] \<Longrightarrow> destroyRoot w = w"
  by (simp add: destroyRoot_def unsubscribeSubscriptions_def)

lemma destroyRoot_fields:
  "subscriptions (destroyRoot w) = []"
  "teardownLog (destroyRoot w) = teardownLog w @ subscriptions w"
  "onFrameSet (destroyRoot w) = onFrameSet w - frameHookDeletions (subscriptions w)"
  by (simp_all add: destroyRoot_def unsubscribeSubscriptions_def fold_runTeardown_log
      fold_runTeardown_onFrameSet)

lemma createRoot_onFrameSet:
  "onFrameSet (createRoot ext node yoga) =
     {DeferredLayoutOnFrame, PanelGroupOnFrame, CameraDistanceOnFrame, ScrollOnFrame,
      GlyphGroupOnFrame}"
  by (auto simp: createRoot_def Let_def push_def pushExternal_def addFrameHook_def
      createDeferredRequestLayoutCalculation_def)

lemma createRoot_subscriptions:
  "subscriptions (createRoot ext node yoga) =
     map External (cursorCleanupSubs ext) @ [DeleteFrameHook DeferredLayoutOnFrame] @
     map External (flexNodeSubs ext) @ [DestroyNode node] @
     map External (applyTransformSubs ext) @
     [DeleteFrameHook PanelGroupOnFrame, DeleteFrameHook CameraDistanceOnFrame] @
     map External (instancedPanelSubs ext) @ map External (scrollbarSubs ext) @
     map External (layoutListenerSubs ext) @ map External (scrollHandlerSubs ext) @
     [DeleteFrameHook ScrollOnFrame, DeleteFrameHook GlyphGroupOnFrame] @
     map External (interactionPanelSubs ext)"
  by (simp add: createRoot_def Let_def push_def pushExternal_def addFrameHook_def
      createDeferredRequestLayoutCalculation_def)

lemma createRoot_teardownLog: "teardownLog (createRoot ext node yoga) = []"
  by (simp add: createRoot_def Let_def push_def pushExternal_def addFrameHook_def
      createDeferredRequestLayoutCalculation_def)

lemma count_list_map_External:
  "count_list (map External ids) (DeleteFrameHook h) = 0"
  by (induction ids) simp_all

lemma createRoot_deletes_each_hook_once:
  "count_list (subscriptions (createRoot ext node yoga)) (DeleteFrameHook h) = 1"
  by (cases h) (simp_all add: createRoot_subscriptions count_list_map_External)

lemma createRoot_deletions:
  "frameHookDeletions (subscriptions (createRoot ext node yoga)) = UNIV"
proof -
  have "DeleteFrameHook h \<in> set (subscriptions (createRoot ext node yoga))" for h
    by (cases h) (simp_all add: createRoot_subscriptions)
  then show ?thesis by (auto simp: frameHookDeletions_def)
qed

text \<open>
  C6. \<open>createRoot\<close> starts from an empty \<open>onFrameSet\<close> and adds five hooks. The first
  \<open>destroyRoot\<close> runs every callback of the subscription list once, in order (so the
  removal of each of the five hooks runs exactly once), and leaves \<open>onFrameSet\<close> empty as
  before the construction; the second \<open>destroyRoot\<close> finds the list drained and changes
  nothing. No step of the model can fail.
\<close>

theorem destroyRoot_twice:
  "card (onFrameSet (createRoot ext node yoga)) = 5 \<and>
   onFrameSet (destroyRoot (createRoot ext node yoga)) = {} \<and>
   teardownLog (destroyRoot (createRoot ext node yoga)) =
     subscriptions (createRoot ext node yoga) \<and>
   (\<forall>h. count_list (teardownLog (destroyRoot (destroyRoot (createRoot ext node yoga))))
          (DeleteFrameHook h) = 1) \<and>
   destroyRoot (destroyRoot (createRoot ext node yoga)) = destroyRoot (createRoot ext node yoga)"
proof -
  let ?w = "createRoot ext node yoga"
  have twice: "destroyRoot (destroyRoot ?w) = destroyRoot ?w"
    by (rule destroyRoot_drained) (simp add: destroyRoot_fields)
  have log: "teardownLog (destroyRoot ?w) = subscriptions ?w"
    by (simp add: destroyRoot_fields createRoot_teardownLog)
  have "card (onFrameSet ?w) = 5"
    by (simp add: createRoot_onFrameSet)
  moreover have "onFrameSet (destroyRoot ?w) = {}"
    by (simp add: destroyRoot_fields createRoot_deletions)
  moreover have "\<forall>h. count_list (teardownLog (destroyRoot (destroyRoot ?w)))
      (DeleteFrameHook h) = 1"
    by (simp only: twice log createRoot_deletes_each_hook_once) simp
  ultimately show ?thesis using twice log by blast
qed

section \<open>Cancelling the deferred layout\<close>

lemma fold_runTeardown_layoutCalls:
  "layoutCalls (fold runTeardown ts w) = layoutCalls w"
  by (induction ts arbitrary: w) (simp_all add: runTeardown_fields)

lemma runTeardown_keeps_released:
  "yogaNode w n = None \<Longrightarrow> yogaNode (runTeardown t w) n = None"
  by (cases t) (simp_all add: destroy_def)

lemma fold_runTeardown_keeps_released:
  "yogaNode w n = None \<Longrightarrow> yogaNode (fold runTeardown ts w) n = None"
  by (induction ts arbitrary: w) (simp_all add: runTeardown_keeps_released)

lemma fold_runTeardown_releases:
  "DestroyNode n \<in> set ts \<Longrightarrow> yogaNode (fold runTeardown ts w) n = None"
proof (induction ts arbitrary: w)
  case Nil
  then show ?case by simp
next
  case (Cons t ts)
  show ?case
  proof (cases "t = DestroyNode n")
    case True
    have "yogaNode (runTeardown (DestroyNode n) w) n = None" by (simp add: destroy_def)
    then show ?thesis
      by (simp add: True fold_runTeardown_keeps_released)
  next
    case False
    with Cons.prems have "DestroyNode n \<in> set ts" by simp
    from Cons.IH [OF this] show ?thesis by simp
  qed
qed

lemma destroyRoot_more_fields:
  "layoutCalls (destroyRoot w) = layoutCalls w"
  "DestroyNode n \<in> set (subscriptions w) \<Longrightarrow> yogaNode (destroyRoot w) n = None"
  by (simp_all add: destroyRoot_def unsubscribeSubscriptions_def fold_runTeardown_layoutCalls
      fold_runTeardown_releases)

lemma destroyRoot_removes_hook:
  "hookGuarded w \<Longrightarrow> DeferredLayoutOnFrame \<notin> onFrameSet (destroyRoot w)"
  by (auto simp: hookGuarded_def destroyRoot_fields frameHookDeletions_def)

lemma rootStep_registry:
  assumes "e \<noteq> DestroyRoot"
  shows "onFrameSet (rootStep e w) = onFrameSet w"
    and "subscriptions (rootStep e w) = subscriptions w"
  using assms
  by (cases e; simp add: requestCalculateLayout_def frameTick_def onFrame_def
      calculateLayout_def attach_def split: option.splits)+

lemma rootRun_registry:
  assumes "DestroyRoot \<notin> set es"
  shows "onFrameSet (rootRun es w) = onFrameSet w \<and>
         subscriptions (rootRun es w) = subscriptions w"
  using assms
proof (induction es arbitrary: w)
  case Nil
  show ?case by (simp add: rootRun_def)
next
  case (Cons e es)
  then have e: "e \<noteq> DestroyRoot" and es: "DestroyRoot \<notin> set es" by auto
  from Cons.IH [OF es, of "rootStep e w"] rootStep_registry [OF e, of w]
  show ?case by (simp add: rootRun_def)
qed

lemma hookGuarded_rootStep: "hookGuarded w \<Longrightarrow> hookGuarded (rootStep e w)"
proof (cases "e = DestroyRoot")
  case True
  assume "hookGuarded w"
  then have "DeferredLayoutOnFrame \<notin> onFrameSet (destroyRoot w)"
    by (rule destroyRoot_removes_hook)
  with True show ?thesis by (simp add: hookGuarded_def)
next
  case False
  assume "hookGuarded w"
  with rootStep_registry [OF False, of w] show ?thesis by (simp add: hookGuarded_def)
qed

lemma hookGuarded_rootRun: "hookGuarded w \<Longrightarrow> hookGuarded (rootRun es w)"
  by (induction es arbitrary: w) (simp_all add: rootRun_def hookGuarded_rootStep)

lemma hookGuarded_createRoot: "hookGuarded (createRoot ext node yoga)"
  by (simp add: hookGuarded_def createRoot_subscriptions)

lemma unhooked_rootStep:
  assumes "DeferredLayoutOnFrame \<notin> onFrameSet w"
  shows "DeferredLayoutOnFrame \<notin> onFrameSet (rootStep e w) \<and>
         layoutCalls (rootStep e w) = layoutCalls w"
proof (cases e)
  case (RequestLayout n)
  with assms show ?thesis by (simp add: requestCalculateLayout_def)
next
  case Frame
  with assms show ?thesis by (simp add: frameTick_def)
next
  case (AttachYoga n h)
  with assms show ?thesis by (simp add: attach_def)
next
  case DestroyRoot
  with assms show ?thesis by (simp add: destroyRoot_fields destroyRoot_more_fields)
qed

lemma unhooked_rootRun:
  assumes "DeferredLayoutOnFrame \<notin> onFrameSet w"
  shows "layoutCalls (rootRun es w) = layoutCalls w"
  using assms
proof (induction es arbitrary: w)
  case Nil
  show ?case by (simp add: rootRun_def)
next
  case (Cons e es)
  note s = unhooked_rootStep [OF Cons.prems, of e]
  from s have "DeferredLayoutOnFrame \<notin> onFrameSet (rootStep e w)" by simp
  from Cons.IH [OF this] s show ?case by (simp add: rootRun_def)
qed

lemma rootRun_append: "rootRun (xs @ ys) w = rootRun ys (rootRun xs w)"
  by (simp add: rootRun_def)

text \<open>
  C2, as it is stated, fails: the deferred callback does not test the handle. Let a root
  be constructed, its node be given a handle and be requested, and the node then be
  destroyed on its own, while the hook is still registered. The node is still pending,
  its handle is gone, and the next frame tick hands it to \<open>calculateLayout\<close>.
\<close>

theorem deferred_callback_counterexample:
  "DeferredLayoutOnFrame \<in> onFrameSet
     (destroy 3 (requestCalculateLayout 3
        (attach 3 7 (createRoot noExternalSubscriptions 3 (\<lambda>n. None))))) \<and>
   requestedNode
     (destroy 3 (requestCalculateLayout 3
        (attach 3 7 (createRoot noExternalSubscriptions 3 (\<lambda>n. None))))) = Some 3 \<and>
   yogaNode
     (destroy 3 (requestCalculateLayout 3
        (attach 3 7 (createRoot noExternalSubscriptions 3 (\<lambda>n. None))))) 3 = None \<and>
   layoutCalls (frameTick
     (destroy 3 (requestCalculateLayout 3
        (attach 3 7 (createRoot noExternalSubscriptions 3 (\<lambda>n. None)))))) = [3]"
  by (simp add: createRoot_def Let_def push_def pushExternal_def addFrameHook_def
      createDeferredRequestLayoutCalculation_def noExternalSubscriptions_def attach_def
      requestCalculateLayout_def destroy_def frameTick_def onFrame_def calculateLayout_def)

text \<open>
  C2, amended. The recompute is cancelled by removing the hook, and the handle is tested
  when a recompute is requested, not in the deferred callback. Whatever requests, frame
  ticks and attachments of handles precede and follow the destruction of a root by
  \<open>destroyRoot\<close>, no call of \<open>calculateLayout\<close> is made after the destruction, also when
  a node was pending at that moment. Right after the first destruction the handle of the
  node of the root is released and a request on the node changes nothing.
\<close>

theorem destroyed_root_is_not_laid_out:
  "layoutCalls (rootRun (before @ DestroyRoot # after) (createRoot ext node yoga)) =
     layoutCalls (rootRun before (createRoot ext node yoga)) \<and>
   (DestroyRoot \<notin> set before \<longrightarrow>
      yogaNode (rootRun (before @ [DestroyRoot]) (createRoot ext node yoga)) node = None \<and>
      requestCalculateLayout node (rootRun (before @ [DestroyRoot]) (createRoot ext node yoga))
        = rootRun (before @ [DestroyRoot]) (createRoot ext node yoga))"
proof -
  let ?w = "rootRun before (createRoot ext node yoga)"
  have g: "hookGuarded ?w"
    by (rule hookGuarded_rootRun) (rule hookGuarded_createRoot)
  have split: "rootRun (before @ DestroyRoot # after) (createRoot ext node yoga) =
      rootRun after (destroyRoot ?w)"
    by (simp add: rootRun_def)
  have one: "rootRun (before @ [DestroyRoot]) (createRoot ext node yoga) = destroyRoot ?w"
    by (simp add: rootRun_def)
  have "layoutCalls (rootRun after (destroyRoot ?w)) = layoutCalls (destroyRoot ?w)"
    by (rule unhooked_rootRun) (rule destroyRoot_removes_hook [OF g])
  then have first: "layoutCalls (rootRun (before @ DestroyRoot # after)
      (createRoot ext node yoga)) = layoutCalls ?w"
    by (simp only: split destroyRoot_more_fields(1))
  have second: "yogaNode (destroyRoot ?w) node = None \<and>
      requestCalculateLayout node (destroyRoot ?w) = destroyRoot ?w"
    if "DestroyRoot \<notin> set before"
  proof -
    from rootRun_registry [OF that, of "createRoot ext node yoga"]
    have "DestroyNode node \<in> set (subscriptions ?w)"
      by (simp add: createRoot_subscriptions)
    then have "yogaNode (destroyRoot ?w) node = None"
      by (rule destroyRoot_more_fields(2))
    then show ?thesis by (simp add: requestCalculateLayout_def)
  qed
  from first second show ?thesis by (simp only: one) blast
qed

theorem destroyed_root_is_not_laid_out_witness:
  "layoutCalls (rootRun
      ([AttachYoga 3 7, RequestLayout 3, Frame, RequestLayout 3] @ DestroyRoot #
       [Frame, AttachYoga 3 8, RequestLayout 3, Frame, DestroyRoot, Frame])
      (createRoot noExternalSubscriptions 3 (\<lambda>n. None))) = [3] \<and>
   requestedNode (rootRun [AttachYoga 3 7, RequestLayout 3, Frame, RequestLayout 3]
      (createRoot noExternalSubscriptions 3 (\<lambda>n. None))) = Some 3 \<and>
   yogaNode (rootRun ([AttachYoga 3 7, RequestLayout 3, Frame, RequestLayout 3] @ [DestroyRoot])
      (createRoot noExternalSubscriptions 3 (\<lambda>n. None))) 3 = None"
proof -
  let ?before = "[AttachYoga 3 7, RequestLayout 3, Frame, RequestLayout 3]"
  let ?after = "[Frame, AttachYoga 3 8, RequestLayout 3, Frame, DestroyRoot, Frame]"
  let ?w = "createRoot noExternalSubscriptions 3 (\<lambda>n. None)"
  note t = destroyed_root_is_not_laid_out [of ?before ?after noExternalSubscriptions 3
      "\<lambda>n. None"]
  have b: "DestroyRoot \<notin> set ?before" by simp
  have w: "rootRun ?before ?w =
      (attach 3 7 ?w)\<lparr>requestedNode := Some 3, layoutCalls := [3]\<rparr>"
    by (simp add: rootRun_def createRoot_def Let_def push_def pushExternal_def
        addFrameHook_def createDeferredRequestLayoutCalculation_def
        noExternalSubscriptions_def attach_def requestCalculateLayout_def frameTick_def
        onFrame_def calculateLayout_def)
  from t [THEN conjunct1] have "layoutCalls (rootRun (?before @ DestroyRoot # ?after) ?w)
      = [3]"
    by (simp only: w) simp
  moreover have "requestedNode (rootRun ?before ?w) = Some 3"
    by (simp only: w) simp
  moreover note t [THEN conjunct2, THEN mp, OF b, THEN conjunct1]
  ultimately show ?thesis by (intro conjI)
qed

section \<open>Properties of the size translator\<close>

lemma sizeTransformer_cache_sound:
  assumes "\<forall>v e. cache v = Some e \<longrightarrow> e = sizeEntry p v"
  shows "\<forall>v e. fst (sizeTransformer p to value cache) v = Some e \<longrightarrow> e = sizeEntry p v"
  using assms by (auto simp: sizeTransformer_def Let_def split: option.splits)

lemma cacheAfter_snoc:
  "cacheAfter p to (vs @ [v]) = fst (sizeTransformer p to v (cacheAfter p to vs))"
  by (simp add: cacheAfter_def)

lemma cacheAfter_sound:
  "\<forall>v e. cacheAfter p to vs v = Some e \<longrightarrow> e = sizeEntry p v"
proof (induction vs rule: rev_induct)
  case Nil
  show ?case by (simp add: cacheAfter_def)
next
  case (snoc x xs)
  show ?case
    unfolding cacheAfter_snoc by (rule sizeTransformer_cache_sound) (rule snoc)
qed

lemma sizeTransformer_calls:
  "snd (sizeTransformer p to value (cacheAfter p to earlier)) = [(to, sizeEntry p value)]"
proof (cases "cacheAfter p to earlier value")
  case None
  then show ?thesis by (simp add: sizeTransformer_def Let_def)
next
  case (Some e)
  with cacheAfter_sound [of p to earlier] have "e = sizeEntry p value" by blast
  with Some show ?thesis by (simp add: sizeTransformer_def)
qed

lemma rootTransformers_sizeX:
  "rootTransformers ps ''sizeX'' = Some (sizeTransformer (rootPixelSize ps) ''width'')"
  by (simp add: rootTransformers_def createSizeTranslator_def Let_def)

lemma rootTransformers_sizeY:
  "rootTransformers ps ''sizeY'' = Some (sizeTransformer (rootPixelSize ps) ''height'')"
  by (simp add: rootTransformers_def createSizeTranslator_def Let_def)

lemma sizeEntry_value:
  "readReactive \<sigma> value = Value s \<Longrightarrow> readReactive \<sigma> (sizeEntry p value) = Value (s / p)"
  by (simp add: sizeEntry_def)

lemma sizeEntry_nullish:
  "isNullish (readReactive \<sigma> value) \<Longrightarrow> readReactive \<sigma> (sizeEntry p value) = Undefined"
  by (cases "readReactive \<sigma> value") (simp_all add: sizeEntry_def)

text \<open>
  C4. The pixel size of a root is its \<open>pixelSize\<close> property, and 0.002 when the property is
  undefined or null. The transformer that \<open>createRoot\<close> registers under \<open>sizeX\<close> makes
  exactly one write, to \<open>width\<close>; read in any store in which the incoming value is the
  number \<open>s\<close>, the written property is \<open>s\<close> divided by the pixel size of the root, and it is
  undefined when the incoming value is null or undefined. The same holds for \<open>sizeY\<close> and
  \<open>height\<close>, and whatever values the transformer has been called on before. The division
  is the division of numbers of the program; in particular 100 divided by 0.002 is 50000.
\<close>

theorem size_translator_divides:
  "(readReactive \<sigma> value = Value s \<longrightarrow>
      transformed (rootTransformers pixelSizeProperty) \<sigma> ''sizeX'' value
        (cacheAfter (rootPixelSize pixelSizeProperty) ''width'' earlier)
        = Some [(''width'', Value (s / rootPixelSize pixelSizeProperty))] \<and>
      transformed (rootTransformers pixelSizeProperty) \<sigma> ''sizeY'' value
        (cacheAfter (rootPixelSize pixelSizeProperty) ''height'' earlier)
        = Some [(''height'', Value (s / rootPixelSize pixelSizeProperty))]) \<and>
   (isNullish (readReactive \<sigma> value) \<longrightarrow>
      transformed (rootTransformers pixelSizeProperty) \<sigma> ''sizeX'' value
        (cacheAfter (rootPixelSize pixelSizeProperty) ''width'' earlier)
        = Some [(''width'', Undefined)] \<and>
      transformed (rootTransformers pixelSizeProperty) \<sigma> ''sizeY'' value
        (cacheAfter (rootPixelSize pixelSizeProperty) ''height'' earlier)
        = Some [(''height'', Undefined)]) \<and>
   rootPixelSize (Value p) = p \<and>
   rootPixelSize Undefined = literal 0.002 \<and>
   rootPixelSize Null = literal 0.002 \<and>
   Finite 100 / literal 0.002 = Finite 50000"
proof -
  let ?p = "rootPixelSize pixelSizeProperty"
  have X: "transformed (rootTransformers pixelSizeProperty) \<sigma> ''sizeX'' value
      (cacheAfter ?p ''width'' earlier)
      = Some [(''width'', readReactive \<sigma> (sizeEntry ?p value))]"
    by (simp add: transformed_def rootTransformers_sizeX sizeTransformer_calls)
  have Y: "transformed (rootTransformers pixelSizeProperty) \<sigma> ''sizeY'' value
      (cacheAfter ?p ''height'' earlier)
      = Some [(''height'', readReactive \<sigma> (sizeEntry ?p value))]"
    by (simp add: transformed_def rootTransformers_sizeY sizeTransformer_calls)
  have "Finite 100 / literal 0.002 = Finite 50000"
    unfolding literal_def by (rule hundred_by_default)
  then show ?thesis
    by (simp add: X Y sizeEntry_value sizeEntry_nullish DEFAULT_PIXEL_SIZE_def)
qed

theorem size_translator_divides_witness:
  "transformed (rootTransformers Undefined) (\<lambda>c. Undefined) ''sizeX''
     (Plain (Value (Finite 100)))
     (cacheAfter (rootPixelSize Undefined) ''width'' [Plain (Value (Finite 100)), Signal 0])
     = Some [(''width'', Value (Finite 50000))] \<and>
   transformed (rootTransformers (Value (Finite 0))) (\<lambda>c. Undefined) ''sizeY''
     (Plain (Value (Finite 100)))
     (cacheAfter (rootPixelSize (Value (Finite 0))) ''height'' [])
     = Some [(''height'', Value PosInfinity)] \<and>
   transformed (rootTransformers Undefined) (\<lambda>c. Undefined) ''sizeY'' (Signal 0)
     (cacheAfter (rootPixelSize Undefined) ''height'' [])
     = Some [(''height'', Undefined)]"
proof -
  let ?\<sigma> = "\<lambda>c::cell. Undefined :: number nullable"
  have r: "readReactive ?\<sigma> (Plain (Value (Finite 100))) = Value (Finite 100)" by simp
  have n: "isNullish (readReactive ?\<sigma> (Signal 0))" by simp
  note a = size_translator_divides [of ?\<sigma> "Plain (Value (Finite 100))" "Finite 100"
      Undefined "[Plain (Value (Finite 100)), Signal 0]" "Finite 0"]
  note b = size_translator_divides [of ?\<sigma> "Plain (Value (Finite 100))" "Finite 100"
      "Value (Finite 0)" "[]" "Finite 0"]
  note c = size_translator_divides [of ?\<sigma> "Signal 0" "Finite 100" Undefined "[]" "Finite 0"]
  have p: "rootPixelSize Undefined = literal 0.002"
    by (rule a [THEN conjunct2, THEN conjunct2, THEN conjunct2, THEN conjunct1])
  have q: "Finite 100 / literal 0.002 = Finite 50000"
    by (rule a [THEN conjunct2, THEN conjunct2, THEN conjunct2, THEN conjunct2,
        THEN conjunct2])
  have z: "Finite 100 / rootPixelSize (Value (Finite 0)) = PosInfinity"
    by (simp add: divide_number_def infinity_def)
  from a [THEN conjunct1, THEN mp, OF r, THEN conjunct1]
  have one: "transformed (rootTransformers Undefined) ?\<sigma> ''sizeX''
      (Plain (Value (Finite 100)))
      (cacheAfter (rootPixelSize Undefined) ''width'' [Plain (Value (Finite 100)), Signal 0])
      = Some [(''width'', Value (Finite 50000))]"
    by (simp only: p q)
  from b [THEN conjunct1, THEN mp, OF r, THEN conjunct2]
  have two: "transformed (rootTransformers (Value (Finite 0))) ?\<sigma> ''sizeY''
      (Plain (Value (Finite 100)))
      (cacheAfter (rootPixelSize (Value (Finite 0))) ''height'' [])
      = Some [(''height'', Value PosInfinity)]"
    by (simp only: z)
  note three = c [THEN conjunct2, THEN conjunct1, THEN mp, OF n, THEN conjunct2]
  from one two three show ?thesis by (intro conjI)
qed

section \<open>Properties of the merged properties\<close>


















lemma rootSizeTransformers_key:
  "rootSizeTransformers ps k =
     (if k = ''sizeY'' then Some (\<lambda>v. [(''height'', sizeEntry (rootPixelSize ps) v)])
      else if k = ''sizeX'' then Some (\<lambda>v. [(''width'', sizeEntry (rootPixelSize ps) v)])
      else None)"
  by (simp add: rootSizeTransformers_def rootTransformers_def createSizeTranslator_def
      sizeTransformer_def Let_def map_add_def)





text \<open>
  The scenario of the spec: a root with \<open>sizeX = 100\<close> and the pixel size 0.002 resolves
  the merged \<open>width\<close> to 50000, whether the pixel size is given or left to the default.
\<close>

lemma root_width_scenario:
  "read \<sigma> (mergedProperties (rootSizeTransformers (Value (literal 0.002)))
      None [(''sizeX'', Plain (Value (Finite 100)))]) ''width'' = Value (Finite 50000)"
  "read \<sigma> (mergedProperties (rootSizeTransformers Undefined)
      (Some [(''sizeX'', Plain (Value (Finite 1)))]) [(''sizeX'', Plain (Value (Finite 100)))])
      ''width'' = Value (Finite 50000)"
proof -
  have "Finite 100 / literal 0.002 = Finite 50000"
    unfolding literal_def by (rule hundred_by_default)
  then have q: "Finite 100 / literal (1 / 500) = Finite 50000"
    by simp
  show "read \<sigma> (mergedProperties (rootSizeTransformers (Value (literal 0.002)))
      None [(''sizeX'', Plain (Value (Finite 100)))]) ''width'' = Value (Finite 50000)"
    by (simp add: mergedProperties_def addAll_def addSource_def add_def writeProperty_def
        read_def newMergedProperties_def rootSizeTransformers_key sizeEntry_def q)
  show "read \<sigma> (mergedProperties (rootSizeTransformers Undefined)
      (Some [(''sizeX'', Plain (Value (Finite 1)))]) [(''sizeX'', Plain (Value (Finite 100)))])
      ''width'' = Value (Finite 50000)"
    by (simp add: mergedProperties_def addAll_def addSource_def add_def writeProperty_def
        read_def newMergedProperties_def rootSizeTransformers_key sizeEntry_def q
        DEFAULT_PIXEL_SIZE_def)
qed

section \<open>Properties of the root matrix\<close>

lemma computeRootMatrix_defined:
  "computeRootMatrix ax ay anchorX anchorY (Value m) (W, H) p =
     Value (premultiply (clone m)
       (makeTranslation (ax (orElse anchorX XCenter) * W * p)
                        (ay (orElse anchorY YCenter) * H * p) 0))"
  by (simp add: computeRootMatrix_def)

lemma premultiply_translationX:
  "translationX (premultiply (clone m) (makeTranslation a b c)) =
     1 * n14 m + 0 * n24 m + 0 * n34 m + a * n44 m"
  by (simp add: translationX_def premultiply_def clone_def multiplyMatrices_def
      makeTranslation_def)

lemma premultiply_translationY:
  "translationY (premultiply (clone m) (makeTranslation a b c)) =
     0 * n14 m + 1 * n24 m + 0 * n34 m + b * n44 m"
  by (simp add: translationY_def premultiply_def clone_def multiplyMatrices_def
      makeTranslation_def)

text \<open>
  In the arithmetic of the program: the translation of the root matrix is the translation
  of the transform matrix plus the offset, every operation rounding.
\<close>

lemma rootMatrix_translation_number:
  fixes m :: "number Matrix4"
  assumes "affine m"
    and "finiteDouble (n14 m)" and "finiteDouble (n24 m)" and "finiteDouble (n34 m)"
  shows "map_nullable translationX (computeRootMatrix ax ay anchorX anchorY (Value m) (W, H) p)
           = Value (n14 m + ax (orElse anchorX XCenter) * W * p)"
    and "map_nullable translationY (computeRootMatrix ax ay anchorX anchorY (Value m) (W, H) p)
           = Value (n24 m + ay (orElse anchorY YCenter) * H * p)"
proof -
  from assms(1) have one: "n44 m = 1" by (simp add: affine_def)
  note d = finiteDouble_isDouble [OF assms(2)] finiteDouble_isDouble [OF assms(3)]
  have "1 * n14 m + 0 * n24 m + 0 * n34 m + ax (orElse anchorX XCenter) * W * p * n44 m
      = n14 m + ax (orElse anchorX XCenter) * W * p"
    by (simp add: one times_one_number d isDouble_times zero_times_number assms
        plus_zero_number)
  then show "map_nullable translationX
      (computeRootMatrix ax ay anchorX anchorY (Value m) (W, H) p)
      = Value (n14 m + ax (orElse anchorX XCenter) * W * p)"
    by (simp add: computeRootMatrix_defined premultiply_translationX)
  have "0 * n14 m + 1 * n24 m + 0 * n34 m + ay (orElse anchorY YCenter) * H * p * n44 m
      = n24 m + ay (orElse anchorY YCenter) * H * p"
    by (simp add: one times_one_number d isDouble_times zero_times_number assms
        plus_zero_number)
  then show "map_nullable translationY
      (computeRootMatrix ax ay anchorX anchorY (Value m) (W, H) p)
      = Value (n24 m + ay (orElse anchorY YCenter) * H * p)"
    by (simp add: computeRootMatrix_defined premultiply_translationY)
qed

text \<open>The same in exact arithmetic.\<close>

lemma rootMatrix_translation_real:
  fixes m :: "real Matrix4"
  assumes "affine m"
  shows "map_nullable translationX (computeRootMatrix ax ay anchorX anchorY (Value m) (W, H) p)
           = Value (n14 m + ax (orElse anchorX XCenter) * W * p)"
    and "map_nullable translationY (computeRootMatrix ax ay anchorX anchorY (Value m) (W, H) p)
           = Value (n24 m + ay (orElse anchorY YCenter) * H * p)"
  using assms
  by (simp_all add: computeRootMatrix_defined premultiply_translationX
      premultiply_translationY affine_def)

text \<open>The arithmetic of the example: a root of width 400 with the default pixel size.\<close>

lemma example_products:
  "Finite (1 / 2) * Finite 400 * literal 0.002 = Finite (7205759403792794 / 2 ^ 54)"
  "Finite (- (1 / 2)) * Finite 400 * literal 0.002 = Finite (- (7205759403792794 / 2 ^ 54))"
  "Finite 400 * literal 0.002 = Finite (7205759403792794 / 2 ^ 53)"
proof -
  have a: "roundToDouble 200 = Finite (of_int 7036874417766400 * (1 / 2 ^ 45))"
    by (rule roundToDouble_eval [where e = 7]) (simp_all add: maxDouble_def powr_neg_numeral)
  have a': "roundToDouble (- 200) = Finite (of_int (- 7036874417766400) * (1 / 2 ^ 45))"
    by (rule roundToDouble_eval [where e = 7]) (simp_all add: maxDouble_def powr_neg_numeral)
  have b: "roundToDouble (200 * (4611686018427388 / 2 ^ 61)) =
      Finite (of_int 7205759403792794 * (1 / 2 ^ 54))"
    by (rule roundToDouble_eval [where e = "- 2"])
       (simp_all add: maxDouble_def powr_neg_numeral)
  have b': "roundToDouble (- 200 * (4611686018427388 / 2 ^ 61)) =
      Finite (of_int (- 7205759403792794) * (1 / 2 ^ 54))"
    by (rule roundToDouble_eval [where e = "- 2"])
       (simp_all add: maxDouble_def powr_neg_numeral)
  have c: "roundToDouble (400 * (4611686018427388 / 2 ^ 61)) =
      Finite (of_int 7205759403792794 * (1 / 2 ^ 53))"
    by (rule roundToDouble_eval [where e = "- 1"])
       (simp_all add: maxDouble_def powr_neg_numeral)
  have d: "literal 0.002 = Finite (4611686018427388 / 2 ^ 61)"
    by (simp only: literal_def default_pixel_size_value)
  have "Finite (1 / 2) * Finite 400 = roundToDouble 200"
    by (simp add: times_number_def)
  also have "\<dots> = Finite 200" by (simp only: a) simp
  finally have h: "Finite (1 / 2) * Finite 400 = Finite 200" .
  have "Finite (- (1 / 2)) * Finite 400 = roundToDouble (- 200)"
    by (simp add: times_number_def)
  also have "\<dots> = Finite (- 200)" by (simp only: a') simp
  finally have h': "Finite (- (1 / 2)) * Finite 400 = Finite (- 200)" .
  have "Finite (1 / 2) * Finite 400 * literal 0.002 =
      Finite 200 * Finite (4611686018427388 / 2 ^ 61)"
    by (simp only: h d)
  also have "\<dots> = roundToDouble (200 * (4611686018427388 / 2 ^ 61))"
    by (simp only: times_number_def numberMultiply.simps)
  also have "\<dots> = Finite (7205759403792794 / 2 ^ 54)" by (simp only: b) simp
  finally show "Finite (1 / 2) * Finite 400 * literal 0.002 =
      Finite (7205759403792794 / 2 ^ 54)" .
  have "Finite (- (1 / 2)) * Finite 400 * literal 0.002 =
      Finite (- 200) * Finite (4611686018427388 / 2 ^ 61)"
    by (simp only: h' d)
  also have "\<dots> = roundToDouble (- 200 * (4611686018427388 / 2 ^ 61))"
    by (simp only: times_number_def numberMultiply.simps)
  also have "\<dots> = Finite (- (7205759403792794 / 2 ^ 54))" by (simp only: b') simp
  finally show "Finite (- (1 / 2)) * Finite 400 * literal 0.002 =
      Finite (- (7205759403792794 / 2 ^ 54))" .
  have "Finite 400 * literal 0.002 = roundToDouble (400 * (4611686018427388 / 2 ^ 61))"
    by (simp only: d times_number_def numberMultiply.simps)
  also have "\<dots> = Finite (7205759403792794 / 2 ^ 53)" by (simp only: c) simp
  finally show "Finite 400 * literal 0.002 = Finite (7205759403792794 / 2 ^ 53)" .
qed

lemma example_sums:
  "Finite 1 + Finite (7205759403792794 / 2 ^ 54) = Finite (6305039478318694 / 2 ^ 52)"
  "Finite 1 + Finite (- (7205759403792794 / 2 ^ 54)) = Finite (5404319552844595 / 2 ^ 53)"
  "Finite (6305039478318694 / 2 ^ 52) - Finite (5404319552844595 / 2 ^ 53) =
     Finite (7205759403792793 / 2 ^ 53)"
proof -
  have a: "roundToDouble (1 + 7205759403792794 / 2 ^ 54) =
      Finite (of_int 6305039478318694 * (1 / 2 ^ 52))"
    by (rule roundToDouble_eval_gen [where e = 0])
       (simp_all add: maxDouble_def powr_neg_numeral roundHalfEven_def Let_def)
  have b: "roundToDouble (1 + - (7205759403792794 / 2 ^ 54)) =
      Finite (of_int 5404319552844595 * (1 / 2 ^ 53))"
    by (rule roundToDouble_eval_gen [where e = "- 1"])
       (simp_all add: maxDouble_def powr_neg_numeral roundHalfEven_def Let_def)
  have c: "roundToDouble (6305039478318694 / 2 ^ 52 + - (5404319552844595 / 2 ^ 53)) =
      Finite (of_int 7205759403792793 * (1 / 2 ^ 53))"
    by (rule roundToDouble_eval_gen [where e = "- 1"])
       (simp_all add: maxDouble_def powr_neg_numeral roundHalfEven_def Let_def)
  have "Finite 1 + Finite (7205759403792794 / 2 ^ 54) =
      roundToDouble (1 + 7205759403792794 / 2 ^ 54)"
    by (simp only: plus_number_def numberAdd.simps)
  also have "\<dots> = Finite (6305039478318694 / 2 ^ 52)" by (simp only: a) simp
  finally show "Finite 1 + Finite (7205759403792794 / 2 ^ 54) =
      Finite (6305039478318694 / 2 ^ 52)" .
  have "Finite 1 + Finite (- (7205759403792794 / 2 ^ 54)) =
      roundToDouble (1 + - (7205759403792794 / 2 ^ 54))"
    by (simp only: plus_number_def numberAdd.simps)
  also have "\<dots> = Finite (5404319552844595 / 2 ^ 53)" by (simp only: b) simp
  finally show "Finite 1 + Finite (- (7205759403792794 / 2 ^ 54)) =
      Finite (5404319552844595 / 2 ^ 53)" .
  have "Finite (6305039478318694 / 2 ^ 52) - Finite (5404319552844595 / 2 ^ 53) =
      roundToDouble (6305039478318694 / 2 ^ 52 + - (5404319552844595 / 2 ^ 53))"
    by (simp only: minus_number_def numberNegate.simps numberAdd.simps)
  also have "\<dots> = Finite (7205759403792793 / 2 ^ 53)" by (simp only: c) simp
  finally show "Finite (6305039478318694 / 2 ^ 52) - Finite (5404319552844595 / 2 ^ 53) =
      Finite (7205759403792793 / 2 ^ 53)" .
qed

text \<open>
  C5, as it is stated, fails on the program. With the offsets 1/2, 0 and -1/2 for
  \<open>left\<close>, \<open>center\<close> and \<open>right\<close>, a transform matrix that translates by (1, 2, 3), the
  width 400 and the pixel size 0.002, the X translations of the two root matrices are the
  numbers nearest to 1.4 and 0.6. Their difference, exact or rounded, is
  0.7999999999999999 (7205759403792793 / 2^53), whereas \<open>W * p\<close> is the number nearest
  to 0.8 (7205759403792794 / 2^53).
\<close>

theorem anchor_offsets_counterexample:
  "map_nullable translationX (computeRootMatrix
      (\<lambda>a. case a of XLeft \<Rightarrow> Finite (1 / 2) | XCenter \<Rightarrow> Finite 0
                     | XRight \<Rightarrow> Finite (- (1 / 2)))
      (\<lambda>a. case a of YTop \<Rightarrow> Finite (- (1 / 2)) | YCenter \<Rightarrow> Finite 0
                     | YBottom \<Rightarrow> Finite (1 / 2))
      (Value XLeft) Undefined (Value (makeTranslation (Finite 1) (Finite 2) (Finite 3)))
      (Finite 400, Finite 300) (literal 0.002))
     = Value (Finite (6305039478318694 / 2 ^ 52)) \<and>
   map_nullable translationX (computeRootMatrix
      (\<lambda>a. case a of XLeft \<Rightarrow> Finite (1 / 2) | XCenter \<Rightarrow> Finite 0
                     | XRight \<Rightarrow> Finite (- (1 / 2)))
      (\<lambda>a. case a of YTop \<Rightarrow> Finite (- (1 / 2)) | YCenter \<Rightarrow> Finite 0
                     | YBottom \<Rightarrow> Finite (1 / 2))
      (Value XRight) Undefined (Value (makeTranslation (Finite 1) (Finite 2) (Finite 3)))
      (Finite 400, Finite 300) (literal 0.002))
     = Value (Finite (5404319552844595 / 2 ^ 53)) \<and>
   Finite (6305039478318694 / 2 ^ 52) - Finite (5404319552844595 / 2 ^ 53)
     = Finite (7205759403792793 / 2 ^ 53) \<and>
   (6305039478318694 / 2 ^ 52 - 5404319552844595 / 2 ^ 53 :: real)
     = 7205759403792793 / 2 ^ 53 \<and>
   Finite 400 * literal 0.002 = Finite (7205759403792794 / 2 ^ 53) \<and>
   Finite (7205759403792793 / 2 ^ 53) \<noteq> Finite (7205759403792794 / 2 ^ 53)"
proof -
  let ?ax = "\<lambda>a. case a of XLeft \<Rightarrow> Finite (1 / 2) | XCenter \<Rightarrow> Finite 0
      | XRight \<Rightarrow> Finite (- (1 / 2))"
  let ?ay = "\<lambda>a. case a of YTop \<Rightarrow> Finite (- (1 / 2)) | YCenter \<Rightarrow> Finite 0
      | YBottom \<Rightarrow> Finite (1 / 2)"
  let ?m = "makeTranslation (Finite 1) (Finite 2) (Finite 3)"
  have a: "affine ?m" by (simp add: affine_def makeTranslation_def)
  have f: "finiteDouble (n14 ?m)" "finiteDouble (n24 ?m)" "finiteDouble (n34 ?m)"
    by (simp_all only: makeTranslation_def Matrix4.simps finiteDouble_small_integers)
  note t = rootMatrix_translation_number(1) [OF a f, of ?ax ?ay _ Undefined
      "Finite 400" "Finite 300" "literal 0.002"]
  have n14: "n14 ?m = Finite 1" by (simp add: makeTranslation_def)
  have l: "map_nullable translationX (computeRootMatrix ?ax ?ay (Value XLeft) Undefined
      (Value ?m) (Finite 400, Finite 300) (literal 0.002))
      = Value (Finite (6305039478318694 / 2 ^ 52))"
    by (simp only: t n14 orElse.simps alignmentX.case example_products example_sums)
  have r: "map_nullable translationX (computeRootMatrix ?ax ?ay (Value XRight) Undefined
      (Value ?m) (Finite 400, Finite 300) (literal 0.002))
      = Value (Finite (5404319552844595 / 2 ^ 53))"
    by (simp only: t n14 orElse.simps alignmentX.case example_products example_sums)
  have d: "(6305039478318694 / 2 ^ 52 - 5404319552844595 / 2 ^ 53 :: real)
      = 7205759403792793 / 2 ^ 53"
    by simp
  have ne: "Finite (7205759403792793 / 2 ^ 53) \<noteq> Finite (7205759403792794 / 2 ^ 53)"
    by simp
  from l r example_sums(3) d example_products(3) ne show ?thesis
    by (intro conjI)
qed

text \<open>
  C5, amended. For an affine transform matrix whose translation is finite, the X
  translation of the root matrix is the X translation of the transform matrix plus the
  offset \<open>alignmentXMap[anchorX] * W * p\<close>, and the Y translation is the Y translation of
  the transform matrix plus \<open>alignmentYMap[anchorY] * H * p\<close>, in the arithmetic of the
  program, where every operation rounds. In exact arithmetic, and with tables that place
  \<open>left\<close> and \<open>right\<close>, and \<open>top\<close> and \<open>bottom\<close>, one unit apart, the X translations for
  \<open>left\<close> and \<open>right\<close> are exactly \<open>W * p\<close> apart and the Y translations for \<open>top\<close> and
  \<open>bottom\<close> exactly \<open>H * p\<close>.
\<close>

theorem anchor_offsets_differ_by_size:
  fixes m :: "number Matrix4" and mR :: "real Matrix4"
  assumes "affine m"
    and "finiteDouble (n14 m)" and "finiteDouble (n24 m)" and "finiteDouble (n34 m)"
    and "affine mR"
    and "\<bar>tableX XLeft - tableX XRight\<bar> = 1"
    and "\<bar>tableY YTop - tableY YBottom\<bar> = 1"
  shows "map_nullable translationX
           (computeRootMatrix alignmentXMap alignmentYMap anchorX anchorY (Value m) (W, H) p)
           = Value (n14 m + alignmentXMap (orElse anchorX XCenter) * W * p) \<and>
         map_nullable translationY
           (computeRootMatrix alignmentXMap alignmentYMap anchorX anchorY (Value m) (W, H) p)
           = Value (n24 m + alignmentYMap (orElse anchorY YCenter) * H * p) \<and>
         (\<exists>l r t b.
           computeRootMatrix tableX tableY (Value XLeft) aY (Value mR) (WR, HR) pR = Value l \<and>
           computeRootMatrix tableX tableY (Value XRight) aY (Value mR) (WR, HR) pR = Value r \<and>
           \<bar>translationX l - translationX r\<bar> = \<bar>WR * pR\<bar> \<and>
           computeRootMatrix tableX tableY aX (Value YTop) (Value mR) (WR, HR) pR = Value t \<and>
           computeRootMatrix tableX tableY aX (Value YBottom) (Value mR) (WR, HR) pR = Value b \<and>
           \<bar>translationY t - translationY b\<bar> = \<bar>HR * pR\<bar>)"
proof -
  note n = rootMatrix_translation_number [OF assms(1-4)]
  from assms(5) have one: "n44 mR = 1" and zero: "n41 mR = 0" "n42 mR = 0" "n43 mR = 0"
    by (simp_all add: affine_def)
  let ?mk = "\<lambda>ax ay. premultiply (clone mR)
      (makeTranslation (tableX ax * WR * pR) (tableY ay * HR * pR) 0)"
  let ?ay = "orElse aY YCenter" and ?ax = "orElse aX XCenter"
  have "translationX (?mk XLeft ?ay) - translationX (?mk XRight ?ay)
      = (tableX XLeft - tableX XRight) * (WR * pR)"
    by (simp add: premultiply_translationX one algebra_simps)
  then have X: "\<bar>translationX (?mk XLeft ?ay) - translationX (?mk XRight ?ay)\<bar> = \<bar>WR * pR\<bar>"
    by (simp only: abs_mult assms(6) mult_1)
  have "translationY (?mk ?ax YTop) - translationY (?mk ?ax YBottom)
      = (tableY YTop - tableY YBottom) * (HR * pR)"
    by (simp add: premultiply_translationY one algebra_simps)
  then have Y: "\<bar>translationY (?mk ?ax YTop) - translationY (?mk ?ax YBottom)\<bar> = \<bar>HR * pR\<bar>"
    by (simp only: abs_mult assms(7) mult_1)
  have l: "computeRootMatrix tableX tableY (Value XLeft) aY (Value mR) (WR, HR) pR
      = Value (?mk XLeft ?ay)"
    and r: "computeRootMatrix tableX tableY (Value XRight) aY (Value mR) (WR, HR) pR
      = Value (?mk XRight ?ay)"
    and t: "computeRootMatrix tableX tableY aX (Value YTop) (Value mR) (WR, HR) pR
      = Value (?mk ?ax YTop)"
    and b: "computeRootMatrix tableX tableY aX (Value YBottom) (Value mR) (WR, HR) pR
      = Value (?mk ?ax YBottom)"
    by (simp_all add: computeRootMatrix_defined)
  from l r X t b Y have "\<exists>l r t b.
      computeRootMatrix tableX tableY (Value XLeft) aY (Value mR) (WR, HR) pR = Value l \<and>
      computeRootMatrix tableX tableY (Value XRight) aY (Value mR) (WR, HR) pR = Value r \<and>
      \<bar>translationX l - translationX r\<bar> = \<bar>WR * pR\<bar> \<and>
      computeRootMatrix tableX tableY aX (Value YTop) (Value mR) (WR, HR) pR = Value t \<and>
      computeRootMatrix tableX tableY aX (Value YBottom) (Value mR) (WR, HR) pR = Value b \<and>
      \<bar>translationY t - translationY b\<bar> = \<bar>HR * pR\<bar>"
    by blast
  with n show ?thesis by (intro conjI)
qed

theorem anchor_offsets_differ_by_size_witness:
  "map_nullable translationX (computeRootMatrix
      (\<lambda>a. case a of XLeft \<Rightarrow> Finite (1 / 2) | XCenter \<Rightarrow> Finite 0
                     | XRight \<Rightarrow> Finite (- (1 / 2)))
      (\<lambda>a. case a of YTop \<Rightarrow> Finite (- (1 / 2)) | YCenter \<Rightarrow> Finite 0
                     | YBottom \<Rightarrow> Finite (1 / 2))
      (Value XLeft) Undefined (Value (makeTranslation (Finite 1) (Finite 2) (Finite 3)))
      (Finite 400, Finite 300) (literal 0.002))
     = Value (Finite 1 + Finite (1 / 2) * Finite 400 * literal 0.002) \<and>
   (\<exists>l r t b.
     computeRootMatrix
       (\<lambda>a. case a of XLeft \<Rightarrow> 1 / 2 | XCenter \<Rightarrow> 0 | XRight \<Rightarrow> - (1 / 2))
       (\<lambda>a. case a of YTop \<Rightarrow> - (1 / 2) | YCenter \<Rightarrow> 0 | YBottom \<Rightarrow> 1 / 2)
       (Value XLeft) Undefined (Value (makeTranslation 1 2 3)) (400, 300) 0.002 = Value l \<and>
     computeRootMatrix
       (\<lambda>a. case a of XLeft \<Rightarrow> 1 / 2 | XCenter \<Rightarrow> 0 | XRight \<Rightarrow> - (1 / 2))
       (\<lambda>a. case a of YTop \<Rightarrow> - (1 / 2) | YCenter \<Rightarrow> 0 | YBottom \<Rightarrow> 1 / 2)
       (Value XRight) Undefined (Value (makeTranslation 1 2 3)) (400, 300) 0.002 = Value r \<and>
     \<bar>translationX l - translationX r\<bar> = (0.8 :: real) \<and>
     computeRootMatrix
       (\<lambda>a. case a of XLeft \<Rightarrow> 1 / 2 | XCenter \<Rightarrow> 0 | XRight \<Rightarrow> - (1 / 2))
       (\<lambda>a. case a of YTop \<Rightarrow> - (1 / 2) | YCenter \<Rightarrow> 0 | YBottom \<Rightarrow> 1 / 2)
       Undefined (Value YTop) (Value (makeTranslation 1 2 3)) (400, 300) 0.002 = Value t \<and>
     computeRootMatrix
       (\<lambda>a. case a of XLeft \<Rightarrow> 1 / 2 | XCenter \<Rightarrow> 0 | XRight \<Rightarrow> - (1 / 2))
       (\<lambda>a. case a of YTop \<Rightarrow> - (1 / 2) | YCenter \<Rightarrow> 0 | YBottom \<Rightarrow> 1 / 2)
       Undefined (Value YBottom) (Value (makeTranslation 1 2 3)) (400, 300) 0.002 = Value b \<and>
     \<bar>translationY t - translationY b\<bar> = (0.6 :: real))"
proof -
  let ?nx = "\<lambda>a. case a of XLeft \<Rightarrow> Finite (1 / 2) | XCenter \<Rightarrow> Finite 0
      | XRight \<Rightarrow> Finite (- (1 / 2))"
  let ?ny = "\<lambda>a. case a of YTop \<Rightarrow> Finite (- (1 / 2)) | YCenter \<Rightarrow> Finite 0
      | YBottom \<Rightarrow> Finite (1 / 2)"
  let ?m = "makeTranslation (Finite 1) (Finite 2) (Finite 3)"
  let ?ax = "\<lambda>a. case a of XLeft \<Rightarrow> 1 / 2 | XCenter \<Rightarrow> 0 | XRight \<Rightarrow> - (1 / 2 :: real)"
  let ?ay = "\<lambda>a. case a of YTop \<Rightarrow> - (1 / 2) | YCenter \<Rightarrow> 0 | YBottom \<Rightarrow> (1 / 2 :: real)"
  let ?mR = "makeTranslation 1 2 3 :: real Matrix4"
  have a: "affine ?m" by (simp add: affine_def makeTranslation_def)
  have f: "finiteDouble (n14 ?m)" "finiteDouble (n24 ?m)" "finiteDouble (n34 ?m)"
    by (simp_all only: makeTranslation_def Matrix4.simps finiteDouble_small_integers)
  have aR: "affine ?mR" by (simp add: affine_def makeTranslation_def)
  have ax: "\<bar>?ax XLeft - ?ax XRight\<bar> = 1" by simp
  have ay: "\<bar>?ay YTop - ?ay YBottom\<bar> = 1" by simp
  have v: "\<bar>400 * 0.002\<bar> = (0.8 :: real)" "\<bar>300 * 0.002\<bar> = (0.6 :: real)"
    by simp_all
  have n14: "n14 ?m = Finite 1" by (simp add: makeTranslation_def)
  note t = anchor_offsets_differ_by_size [OF a f aR ax ay, where alignmentXMap = ?nx
      and alignmentYMap = ?ny and anchorX = "Value XLeft" and anchorY = Undefined
      and W = "Finite 400" and H = "Finite 300" and p = "literal 0.002"
      and aX = Undefined and aY = Undefined and WR = 400 and HR = 300 and pR = "0.002"]
  from t [THEN conjunct1] have one: "map_nullable translationX (computeRootMatrix ?nx ?ny
      (Value XLeft) Undefined (Value ?m) (Finite 400, Finite 300) (literal 0.002))
      = Value (Finite 1 + Finite (1 / 2) * Finite 400 * literal 0.002)"
    by (simp only: n14 orElse.simps alignmentX.case)
  from t [THEN conjunct2, THEN conjunct2] v have two: "\<exists>l r t b.
      computeRootMatrix ?ax ?ay (Value XLeft) Undefined (Value ?mR) (400, 300) 0.002
        = Value l \<and>
      computeRootMatrix ?ax ?ay (Value XRight) Undefined (Value ?mR) (400, 300) 0.002
        = Value r \<and>
      \<bar>translationX l - translationX r\<bar> = (0.8 :: real) \<and>
      computeRootMatrix ?ax ?ay Undefined (Value YTop) (Value ?mR) (400, 300) 0.002
        = Value t \<and>
      computeRootMatrix ?ax ?ay Undefined (Value YBottom) (Value ?mR) (400, 300) 0.002
        = Value b \<and>
      \<bar>translationY t - translationY b\<bar> = 0.6"
    by simp
  from one two show ?thesis by (rule conjI)
qed

text \<open>
  C8. For a defined or undefined transform matrix alike, anchors that are undefined (or
  null) give the same root matrix as anchors set to \<open>center\<close>.
\<close>

theorem unset_anchor_is_center:
  "computeRootMatrix alignmentXMap alignmentYMap Undefined Undefined matrix rootSize p =
     computeRootMatrix alignmentXMap alignmentYMap (Value XCenter) (Value YCenter)
       matrix rootSize p \<and>
   computeRootMatrix alignmentXMap alignmentYMap Null Null matrix rootSize p =
     computeRootMatrix alignmentXMap alignmentYMap (Value XCenter) (Value YCenter)
       matrix rootSize p \<and>
   computeRootMatrix alignmentXMap alignmentYMap Undefined anchorY matrix rootSize p =
     computeRootMatrix alignmentXMap alignmentYMap (Value XCenter) anchorY matrix rootSize p \<and>
   computeRootMatrix alignmentXMap alignmentYMap anchorX Undefined matrix rootSize p =
     computeRootMatrix alignmentXMap alignmentYMap anchorX (Value YCenter) matrix rootSize p"
  by (simp add: computeRootMatrix_def split: prod.splits nullable.splits)

section \<open>Properties of the camera distance\<close>

lemma dot_vec [simp]:
  "dot (vec a b c) u = a * vx u + b * vy u + c * vz u"
  "dot u (vec a b c) = vx u * a + vy u * b + vz u * c"
  by (simp_all add: dot_def vec_def)

lemma vec_sel [simp]: "vx (vec a b c) = a" "vy (vec a b c) = b" "vz (vec a b c) = c"
  by (simp_all add: vec_def)














lemma camera_distance_example:
  "cameraDistance (onCameraDistanceFrame (Value \<lparr>matrixWorld = makeTranslation 1 2 3\<rparr>)
      \<lparr>matrixWorld = makeTranslation 0 0 10\<rparr>
      \<lparr>cameraDistance = 5, planeHelper = \<lparr>normal = vec 1 0 0, planeConstant = 2\<rparr>,
       vectorHelper = vec 0 0 0, cameraCalls = 0\<rparr>) = 7"
  by (simp add: onCameraDistanceFrame_def Let_def planeApplyMatrix4_def distanceToPoint_def
      getNormalMatrix_def transpose3_def invert3_def determinant3_def setFromMatrix4_def
      makeTranslation_def applyMatrix3_def applyMatrix4_def coplanarPoint_def
      multiplyScalar_def normalize_def divideScalar_def vlength_def setFromMatrixPosition_def)

section \<open>Properties of the batched writes\<close>

lemma enqueue_distinct: "distinct q \<Longrightarrow> distinct (enqueue e q)"
  by (simp add: enqueue_def)

lemma fold_enqueue_distinct: "distinct q \<Longrightarrow> distinct (fold enqueue es q)"
  by (induction es arbitrary: q) (simp_all add: enqueue_distinct)

lemma runDependent_fields:
  "propertiesValue (runDependent e s) = propertiesValue s"
  "defaultPropertiesValue (runDependent e s) = defaultPropertiesValue s"
  by (simp_all add: runDependent_def)

lemma fold_runDependent_values:
  "propertiesValue (fold runDependent q s) = propertiesValue s \<and>
   defaultPropertiesValue (fold runDependent q s) = defaultPropertiesValue s"
  by (induction q arbitrary: s) (simp_all add: runDependent_fields)

lemma fold_runDependent_absent:
  "e \<notin> set q \<Longrightarrow> observations (fold runDependent q s) e = observations s e"
proof (induction q arbitrary: s)
  case Nil
  show ?case by simp
next
  case (Cons a q)
  then have "a \<noteq> e" and "e \<notin> set q" by simp_all
  from Cons.IH [OF this(2), of "runDependent a s"] this(1) show ?case
    by (simp add: runDependent_def)
qed

lemma fold_runDependent_distinct:
  "distinct q \<Longrightarrow> e \<in> set q \<Longrightarrow>
   observations (fold runDependent q s) e =
     observations s e @ [(propertiesValue s, defaultPropertiesValue s)]"
proof (induction q arbitrary: s)
  case Nil
  then show ?case by simp
next
  case (Cons a q)
  show ?case
  proof (cases "a = e")
    case True
    with Cons.prems have "e \<notin> set q" by simp
    then have "observations (fold runDependent q (runDependent a s)) e =
        observations (runDependent a s) e"
      by (rule fold_runDependent_absent)
    moreover have "observations (runDependent a s) e =
        observations s e @ [(propertiesValue s, defaultPropertiesValue s)]"
      using True by (simp add: runDependent_def)
    ultimately show ?thesis by simp
  next
    case False
    with Cons.prems have "distinct q" and "e \<in> set q" by simp_all
    note ih = Cons.IH [OF this, of "runDependent a s"]
    have "observations (runDependent a s) e = observations s e"
      using False by (simp add: runDependent_def)
    with ih show ?thesis by (simp add: runDependent_fields)
  qed
qed

text \<open>Inside a batch a write only stores the value and queues dependents.\<close>

lemma setPropertiesSignal_inside:
  assumes "0 < batchDepth s" and "distinct (queued s)"
  shows "propertiesValue (setPropertiesSignal v s) = v"
    and "defaultPropertiesValue (setPropertiesSignal v s) = defaultPropertiesValue s"
    and "observations (setPropertiesSignal v s) = observations s"
    and "batchDepth (setPropertiesSignal v s) = batchDepth s"
    and "distinct (queued (setPropertiesSignal v s))"
  using assms
  by (simp_all add: setPropertiesSignal_def endBatch_def notify_def startBatch_def
      fold_enqueue_distinct)

lemma setDefaultPropertiesSignal_inside:
  assumes "0 < batchDepth s" and "distinct (queued s)"
  shows "propertiesValue (setDefaultPropertiesSignal v s) = propertiesValue s"
    and "defaultPropertiesValue (setDefaultPropertiesSignal v s) = v"
    and "observations (setDefaultPropertiesSignal v s) = observations s"
    and "batchDepth (setDefaultPropertiesSignal v s) = batchDepth s"
    and "distinct (queued (setDefaultPropertiesSignal v s))"
  using assms
  by (simp_all add: setDefaultPropertiesSignal_def endBatch_def notify_def startBatch_def
      fold_enqueue_distinct)

lemma both_writes_inside:
  assumes "0 < batchDepth s" and "distinct (queued s)"
  shows "propertiesValue (setDefaultPropertiesSignal d (setPropertiesSignal p s)) = p"
    and "defaultPropertiesValue (setDefaultPropertiesSignal d (setPropertiesSignal p s)) = d"
    and "observations (setDefaultPropertiesSignal d (setPropertiesSignal p s)) = observations s"
    and "batchDepth (setDefaultPropertiesSignal d (setPropertiesSignal p s)) = batchDepth s"
    and "distinct (queued (setDefaultPropertiesSignal d (setPropertiesSignal p s)))"
proof -
  note a = setPropertiesSignal_inside [OF assms, of p]
  from a(4) assms(1) have pos: "0 < batchDepth (setPropertiesSignal p s)" by simp
  note b = setDefaultPropertiesSignal_inside [OF pos a(5), of d]
  show "propertiesValue (setDefaultPropertiesSignal d (setPropertiesSignal p s)) = p"
    by (simp add: b(1) a(1))
  show "defaultPropertiesValue (setDefaultPropertiesSignal d (setPropertiesSignal p s)) = d"
    by (rule b(2))
  show "observations (setDefaultPropertiesSignal d (setPropertiesSignal p s)) = observations s"
    by (simp add: b(3) a(3))
  show "batchDepth (setDefaultPropertiesSignal d (setPropertiesSignal p s)) = batchDepth s"
    by (simp add: b(4) a(4))
  show "distinct (queued (setDefaultPropertiesSignal d (setPropertiesSignal p s)))"
    by (rule b(5))
qed

lemma endBatch_outermost:
  assumes "batchDepth s = 1" and "distinct (queued s)"
  shows "propertiesValue (endBatch s) = propertiesValue s"
    and "defaultPropertiesValue (endBatch s) = defaultPropertiesValue s"
    and "observations (endBatch s) e =
           (if e \<in> set (queued s)
            then observations s e @ [(propertiesValue s, defaultPropertiesValue s)]
            else observations s e)"
  using assms
  by (simp_all add: endBatch_def fold_runDependent_values fold_runDependent_absent
      fold_runDependent_distinct)

text \<open>
  C10. \<open>setProperties\<close> stores both new values. Whatever the subscriptions are, every
  dependent is evaluated at most once in the course of the call, and a dependent that is
  evaluated reads the new properties together with the new default properties; no
  evaluation sees one new and one old value. (The queue of notified dependents holds each
  dependent once, as the library keeps it.)
\<close>

theorem setProperties_batched:
  assumes "distinct (queued s)"
  shows "propertiesValue (setProperties p d s) = p \<and>
         defaultPropertiesValue (setProperties p d s) = d \<and>
         (\<forall>e. observations (setProperties p d s) e = observations s e \<or>
              observations (setProperties p d s) e = observations s e @ [(p, d)])"
proof (cases "0 < batchDepth s")
  case True
  note w = both_writes_inside [OF True assms, of d p]
  from True have "setProperties p d s = setDefaultPropertiesSignal d (setPropertiesSignal p s)"
    by (simp add: setProperties_def batch_def)
  with w show ?thesis by simp
next
  case False
  let ?s1 = "startBatch s"
  let ?s2 = "setDefaultPropertiesSignal d (setPropertiesSignal p ?s1)"
  have pos: "0 < batchDepth ?s1" and one: "batchDepth ?s1 = 1"
    and dq: "distinct (queued ?s1)" and obs: "observations ?s1 = observations s"
    using False assms by (simp_all add: startBatch_def)
  note w = both_writes_inside [OF pos dq, of d p]
  from w(4) one have depth: "batchDepth ?s2 = 1" by simp
  note e = endBatch_outermost [OF depth w(5)]
  from False have eq: "setProperties p d s = endBatch ?s2"
    by (simp add: setProperties_def batch_def)
  have "propertiesValue (endBatch ?s2) = p"
    by (simp only: e(1) w(1))
  moreover have "defaultPropertiesValue (endBatch ?s2) = d"
    by (simp only: e(2) w(2))
  moreover have "observations (endBatch ?s2) e = observations s e \<or>
      observations (endBatch ?s2) e = observations s e @ [(p, d)]" for e
    by (simp only: e(3) w(1) w(2) w(3) obs) simp
  ultimately show ?thesis
    by (simp only: eq) blast
qed

theorem setProperties_batched_witness:
  "distinct (queued
     \<lparr>propertiesValue = 1 :: nat, defaultPropertiesValue = 10 :: nat,
      subscribers = (\<lambda>c. case c of PropertiesSignal \<Rightarrow> [0, 1]
                            | DefaultPropertiesSignal \<Rightarrow> [1, 2]),
      batchDepth = 0, queued = [], observations = (\<lambda>e. [])\<rparr>) \<and>
   propertiesValue (setProperties 2 20
     \<lparr>propertiesValue = 1 :: nat, defaultPropertiesValue = 10 :: nat,
      subscribers = (\<lambda>c. case c of PropertiesSignal \<Rightarrow> [0, 1]
                            | DefaultPropertiesSignal \<Rightarrow> [1, 2]),
      batchDepth = 0, queued = [], observations = (\<lambda>e. [])\<rparr>) = 2 \<and>
   (\<forall>e. observations (setProperties 2 20
          \<lparr>propertiesValue = 1 :: nat, defaultPropertiesValue = 10 :: nat,
           subscribers = (\<lambda>c. case c of PropertiesSignal \<Rightarrow> [0, 1]
                                 | DefaultPropertiesSignal \<Rightarrow> [1, 2]),
           batchDepth = 0, queued = [], observations = (\<lambda>e. [])\<rparr>) e = [] \<or>
        observations (setProperties 2 20
          \<lparr>propertiesValue = 1 :: nat, defaultPropertiesValue = 10 :: nat,
           subscribers = (\<lambda>c. case c of PropertiesSignal \<Rightarrow> [0, 1]
                                 | DefaultPropertiesSignal \<Rightarrow> [1, 2]),
           batchDepth = 0, queued = [], observations = (\<lambda>e. [])\<rparr>) e = [(2, 20)])"
proof -
  let ?s = "\<lparr>propertiesValue = 1 :: nat, defaultPropertiesValue = 10 :: nat,
      subscribers = (\<lambda>c. case c of PropertiesSignal \<Rightarrow> [0, 1 :: nat]
                            | DefaultPropertiesSignal \<Rightarrow> [1, 2]),
      batchDepth = 0, queued = [], observations = (\<lambda>e. [])\<rparr>"
  have d: "distinct (queued ?s)" by simp
  from setProperties_batched [OF d, of 2 20] d show ?thesis by simp
qed

lemma setProperties_example:
  "map (observations (setProperties 2 20
     \<lparr>propertiesValue = 1 :: nat, defaultPropertiesValue = 10 :: nat,
      subscribers = (\<lambda>c. case c of PropertiesSignal \<Rightarrow> [0, 1]
                            | DefaultPropertiesSignal \<Rightarrow> [1, 2]),
      batchDepth = 0, queued = [], observations = (\<lambda>e. [])\<rparr>)) [0, 1, 2, 3]
   = [[(2, 20)], [(2, 20)], [(2, 20)], []]"
  by (simp add: setProperties_def batch_def setPropertiesSignal_def
      setDefaultPropertiesSignal_def startBatch_def endBatch_def notify_def enqueue_def
      runDependent_def)

lemma setPropertiesUnbatched_example:
  "map (observations (setPropertiesUnbatched 2 20
     \<lparr>propertiesValue = 1 :: nat, defaultPropertiesValue = 10 :: nat,
      subscribers = (\<lambda>c. case c of PropertiesSignal \<Rightarrow> [0, 1]
                            | DefaultPropertiesSignal \<Rightarrow> [1, 2]),
      batchDepth = 0, queued = [], observations = (\<lambda>e. [])\<rparr>)) [0, 1, 2, 3]
   = [[(2, 10)], [(2, 10), (2, 20)], [(2, 20)], []]"
  by (simp add: setPropertiesUnbatched_def setPropertiesSignal_def
      setDefaultPropertiesSignal_def startBatch_def endBatch_def notify_def enqueue_def
      runDependent_def)

end
